theory Spec2Isabelle
  imports Main "HOL-Library.Sublist"
begin

text \<open>
  A shallow embedding of the ad-research backend: the URL functions of the webpage
  analyzer, the lexical statistics, date handling and result envelope of the trend
  analysis engine, the competitor-insight script compiler, and the two paths of the
  script/description generation engine.  Functions keep the names of the source,
  without the leading underscore of the private ones.  Dictionaries are records with
  optional fields, a raised exception is the left injection of a sum, and the clock and
  the library parser \<open>datetime.fromisoformat\<close> are parameters.
\<close>

section \<open>Webpage analyzer: URL detection\<close>

text \<open>
  Python strings are modelled as \<open>string\<close>, one \<open>char\<close> per code point; the
  text handled here is ASCII.  The URL pattern of \<open>is_valid_url\<close> and
  \<open>extract_url_from_text\<close> is
  \<^verbatim>\<open>http[s]?://(?:[a-zA-Z]|[0-9]|[$-_@.&+]|[!*\\(\\),]|(?:%[0-9a-fA-F][0-9a-fA-F]))+\<close>.
  Inside the third bracket \<open>$-_\<close> is a range, from code 36 to code 95, so every
  alternative of the group consumes one character of the class below (the percent
  escape is three characters of the range).
\<close>

definition url_char :: "char \<Rightarrow> bool" where
  "url_char c =
     (let n = of_char c :: nat in
        (97 \<le> n \<and> n \<le> 122) \<or> (65 \<le> n \<and> n \<le> 90) \<or> (48 \<le> n \<and> n \<le> 57) \<or>
        (36 \<le> n \<and> n \<le> 95) \<or> c = CHR ''@'' \<or> c = CHR ''.'' \<or> c = CHR ''&'' \<or> c = CHR ''+'' \<or>
        c = CHR ''!'' \<or> c = CHR ''*'' \<or> n = 92 \<or> c = CHR ''('' \<or> c = CHR '')'' \<or> c = CHR '','')"

text \<open>The scheme \<open>http[s]?://\<close> at the head of a text, returning what follows it.\<close>

definition strip_scheme :: "string \<Rightarrow> string option" where
  "strip_scheme s =
     (if take 8 s = ''https://'' then Some (drop 8 s)
      else if take 7 s = ''http://'' then Some (drop 7 s)
      else None)"

text \<open>A match of the pattern that starts at the head of the text: the scheme and the
  longest run of class characters, which must not be empty.\<close>

definition url_match_here :: "string \<Rightarrow> string option" where
  "url_match_here s =
     (case strip_scheme s of
        None \<Rightarrow> None
      | Some r \<Rightarrow>
          (if takeWhile url_char r = [] then None
           else Some (take (length s - length r) s @ takeWhile url_char r)))"

text \<open>\<open>url_pattern.search\<close>: the leftmost position with a match.\<close>

fun url_search :: "string \<Rightarrow> string option" where
  "url_search [] = url_match_here []"
| "url_search (c # cs) =
     (case url_match_here (c # cs) of
        Some m \<Rightarrow> Some m
      | None \<Rightarrow> url_search cs)"

definition is_valid_url :: "string \<Rightarrow> bool" where
  "is_valid_url text = (url_search text \<noteq> None)"

definition extract_url_from_text :: "string \<Rightarrow> string option" where
  "extract_url_from_text text = url_search text"

text \<open>The pattern as the specification words it, as a predicate on a whole string:
  the scheme, then one or more characters of the class.\<close>

definition matches_url_pattern :: "string \<Rightarrow> bool" where
  "matches_url_pattern u =
     (case strip_scheme u of
        None \<Rightarrow> False
      | Some body \<Rightarrow> body \<noteq> [] \<and> list_all url_char body)"

section \<open>Trend analysis engine: lexical statistics\<close>

text \<open>
  \<open>str.lower\<close> and the character classes of the two token patterns,
  \<^verbatim>\<open>\b[a-zA-Z]{3,}\b\<close> in \<open>_analyze_word_frequency\<close> and \<^verbatim>\<open>\b[a-zA-Z]+\b\<close> in
  \<open>_analyze_phrase_patterns\<close>, on ASCII text: \<open>\w\<close> is a letter, a digit or the
  underscore.  A character above 127 is left unchanged by \<open>lower\<close> and counts as a
  non-word character here; Python decides both by the Unicode category of the
  character.
\<close>

definition is_upper :: "char \<Rightarrow> bool" where
  "is_upper c = (let n = of_char c :: nat in 65 \<le> n \<and> n \<le> 90)"

definition is_lower :: "char \<Rightarrow> bool" where
  "is_lower c = (let n = of_char c :: nat in 97 \<le> n \<and> n \<le> 122)"

definition is_alpha :: "char \<Rightarrow> bool" where
  "is_alpha c = (is_upper c \<or> is_lower c)"

definition is_word_char :: "char \<Rightarrow> bool" where
  "is_word_char c =
     (let n = of_char c :: nat in is_alpha c \<or> (48 \<le> n \<and> n \<le> 57) \<or> c = CHR ''_'')"

definition lower_char :: "char \<Rightarrow> char" where
  "lower_char c = (if is_upper c then char_of (of_char c + (32 :: nat)) else c)"

definition lower :: "string \<Rightarrow> string" where
  "lower s = map lower_char s"

text \<open>
  One attempt of the pattern \<^verbatim>\<open>\b[a-zA-Z]{n,}\b\<close> at the head of \<open>s\<close>, where \<open>prev\<close> is
  the character before it (none at the start of the text).  The class is matched
  greedily; a shorter match would end between two letters, where \<open>\b\<close> fails, so the
  attempt succeeds only with the whole run of letters, and only if that run is
  bounded by non-word characters on both sides.
\<close>

definition token_here :: "nat \<Rightarrow> char option \<Rightarrow> string \<Rightarrow> string option" where
  "token_here n prev s =
     (let run = takeWhile is_alpha s; rest = dropWhile is_alpha s in
        if run \<noteq> [] \<and> n \<le> length run \<and>
           (case prev of None \<Rightarrow> True | Some p \<Rightarrow> \<not> is_word_char p) \<and>
           (case rest of [] \<Rightarrow> True | r # _ \<Rightarrow> \<not> is_word_char r)
        then Some run else None)"

text \<open>\<open>re.findall\<close> for these patterns: the non-overlapping matches, left to right.\<close>

function findall_alpha :: "nat \<Rightarrow> char option \<Rightarrow> string \<Rightarrow> string list" where
  "findall_alpha n prev [] = []"
| "findall_alpha n prev (c # cs) =
     (case token_here n prev (c # cs) of
        Some w \<Rightarrow> w # findall_alpha n (Some (last w)) (drop (length w) (c # cs))
      | None \<Rightarrow> findall_alpha n (Some c) cs)"
  by pat_completeness auto
termination
proof (relation "measure (\<lambda>(n, prev, s). length s)")
  fix n :: nat and prev :: "char option" and c :: char and cs w :: string
  assume "token_here n prev (c # cs) = Some w"
  then have "w \<noteq> []"
    by (auto simp: token_here_def Let_def split: if_splits)
  then show "((n, Some (last w), drop (length w) (c # cs)), (n, prev, c # cs))
      \<in> measure (\<lambda>(n, prev, s). length s)"
    by (cases w) auto
qed auto

text \<open>
  A \<open>Counter\<close> is a dictionary, which keeps its keys in the order of their first
  insertion: an association list.  \<open>most_common n\<close> is
  \<open>heapq.nlargest n\<close>, that is the first \<open>n\<close> entries of a stable sort by decreasing
  count.
\<close>

fun counter_add :: "'a \<Rightarrow> ('a \<times> nat) list \<Rightarrow> ('a \<times> nat) list" where
  "counter_add k [] = [(k, 1)]"
| "counter_add k ((k', c) # kcs) =
     (if k = k' then (k', c + 1) # kcs else (k', c) # counter_add k kcs)"

definition counter_update :: "'a list \<Rightarrow> ('a \<times> nat) list \<Rightarrow> ('a \<times> nat) list" where
  "counter_update ks cnt = fold counter_add ks cnt"

definition most_common :: "nat \<Rightarrow> ('a \<times> nat) list \<Rightarrow> ('a \<times> nat) list" where
  "most_common n cnt = take n (sort_key (\<lambda>(k, c). - int c) cnt)"

definition stop_words :: "string list" where
  "stop_words =
     [''the'', ''and'', ''for'', ''are'', ''but'', ''not'', ''you'', ''all'', ''can'', ''had'',
      ''her'', ''was'', ''one'', ''our'', ''out'', ''day'', ''get'', ''has'', ''him'', ''his'',
      ''how'', ''its'', ''may'', ''new'', ''now'', ''old'', ''see'', ''two'', ''way'', ''who'',
      ''boy'', ''did'', ''man'', ''oil'', ''sit'', ''try'', ''use'', ''she'', ''put'', ''end'',
      ''why'', ''let'', ''big'', ''few'', ''got'', ''run'', ''yes'', ''any'', ''ask'', ''came'',
      ''give'', ''help'', ''just'', ''know'', ''like'', ''look'', ''make'', ''most'', ''over'',
      ''some'', ''take'', ''than'', ''them'', ''very'', ''what'', ''when'', ''with'', ''have'',
      ''this'', ''will'', ''your'', ''from'', ''they'', ''been'', ''good'', ''much'', ''some'',
      ''time'', ''very'', ''when'', ''come'', ''here'', ''just'', ''like'', ''long'', ''make'',
      ''many'', ''over'', ''such'', ''take'', ''than'', ''them'', ''well'', ''were'']"

definition analyze_word_frequency :: "string list \<Rightarrow> (string \<times> nat) list" where
  "analyze_word_frequency texts =
     (let word_count = fold (\<lambda>text cnt. counter_update (findall_alpha 3 None (lower text)) cnt) texts [];
          filtered_words = filter (\<lambda>(word, count). word \<notin> set stop_words \<and> length word > 3) word_count
      in most_common 20 filtered_words)"

text \<open>The phrases of one text: \<open>words[i] + " " + words[i+1]\<close> for \<open>i\<close> in
  \<open>range(len(words) - 1)\<close>.\<close>

fun adjacent_phrases :: "string list \<Rightarrow> string list" where
  "adjacent_phrases (w1 # w2 # ws) = (w1 @ '' '' @ w2) # adjacent_phrases (w2 # ws)"
| "adjacent_phrases _ = []"

definition analyze_phrase_patterns :: "string list \<Rightarrow> (string \<times> nat) list" where
  "analyze_phrase_patterns texts =
     (let phrases = fold (\<lambda>text cnt.
            counter_update (adjacent_phrases (findall_alpha 1 None (lower text))) cnt) texts []
      in most_common 15 phrases)"

text \<open>
  The tokenization and the phrases in the words of the specification.  A text falls
  into its maximal runs of word characters; the alphabetic runs of length at least \<open>n\<close>
  are the runs made of letters only that are long enough.  The adjacent two-word
  phrases of a list of words are \<open>words[i] + " " + words[i+1]\<close> for every \<open>i\<close> that has a
  successor, and the phrases of a corpus are those of each lower-cased text, in order.
\<close>

function word_runs :: "string \<Rightarrow> string list" where
  "word_runs [] = []"
| "word_runs (c # cs) =
     (if is_word_char c
      then takeWhile is_word_char (c # cs) # word_runs (dropWhile is_word_char cs)
      else word_runs cs)"
  by pat_completeness auto
termination
  by (relation "measure length") (auto simp: less_Suc_eq_le length_dropWhile_le)





section \<open>Trend analysis engine: ad records, dates and the result envelope\<close>

text \<open>
  An ad record is a dictionary; the keys read by the functions below are its fields,
  \<open>None\<close> for a key that is absent, and a value that is present has the type the data
  model gives it, a string.  \<open>ad.get('k')\<close> is the field, and \<open>if v:\<close> holds for a
  string that is present and not empty.
\<close>

record ad_record =
  page_name :: "string option"
  media_type :: "string option"
  body :: "string option"
  start_date :: "string option"

definition truthy :: "string option \<Rightarrow> bool" where
  "truthy v = (case v of None \<Rightarrow> False | Some s \<Rightarrow> s \<noteq> [])"

definition get_or :: "string option \<Rightarrow> string \<Rightarrow> string" where
  "get_or v d = (case v of None \<Rightarrow> d | Some s \<Rightarrow> s)"

text \<open>
  A \<open>datetime\<close>: its calendar fields as microseconds on the proleptic Gregorian time
  line, and its UTC offset in microseconds when it is timezone-aware.  Two naive values
  compare by their fields, two aware values by their instants, and the comparison of a
  naive with an aware value raises \<open>TypeError\<close>.
\<close>

record pydatetime =
  wall :: int
  utcoffset :: "int option"

datatype py_error = TypeError string | ValueError string | AttributeError string

fun str_of_error :: "py_error \<Rightarrow> string" where
  "str_of_error (TypeError m) = m"
| "str_of_error (ValueError m) = m"
| "str_of_error (AttributeError m) = m"

definition dt_less :: "pydatetime \<Rightarrow> pydatetime \<Rightarrow> py_error + bool" where
  "dt_less a b =
     (case (utcoffset a, utcoffset b) of
        (None, None) \<Rightarrow> Inr (wall a < wall b)
      | (Some x, Some y) \<Rightarrow> Inr (wall a - x < wall b - y)
      | _ \<Rightarrow> Inl (TypeError ''can't compare offset-naive and offset-aware datetimes''))"

text \<open>\<open>min\<close> and \<open>max\<close> of a list: the running best is replaced when the next item
  is smaller (\<open>item < best\<close>), respectively greater (\<open>item > best\<close>, which for datetimes
  is \<open>best < item\<close>).\<close>

fun min_from :: "pydatetime \<Rightarrow> pydatetime list \<Rightarrow> py_error + pydatetime" where
  "min_from best [] = Inr best"
| "min_from best (d # ds) =
     (case dt_less d best of
        Inl e \<Rightarrow> Inl e
      | Inr lt \<Rightarrow> min_from (if lt then d else best) ds)"

fun max_from :: "pydatetime \<Rightarrow> pydatetime list \<Rightarrow> py_error + pydatetime" where
  "max_from best [] = Inr best"
| "max_from best (d # ds) =
     (case dt_less best d of
        Inl e \<Rightarrow> Inl e
      | Inr gt \<Rightarrow> max_from (if gt then d else best) ds)"

fun py_min :: "pydatetime list \<Rightarrow> py_error + pydatetime" where
  "py_min [] = Inl (ValueError ''min() arg is an empty sequence'')"
| "py_min (d # ds) = min_from d ds"

fun py_max :: "pydatetime list \<Rightarrow> py_error + pydatetime" where
  "py_max [] = Inl (ValueError ''max() arg is an empty sequence'')"
| "py_max (d # ds) = max_from d ds"

text \<open>
  The parsing of one \<open>start_date\<close>, common to \<open>_analyze_date_patterns\<close> and
  \<open>_get_analysis_period\<close>.  The library function \<open>datetime.fromisoformat\<close> is the
  parameter \<open>fromiso\<close>, \<open>None\<close> where it raises: the bare \<open>except\<close> skips the value.
  \<open>str.replace\<close> replaces every \<open>Z\<close>.
\<close>

definition endswith_Z :: "string \<Rightarrow> bool" where
  "endswith_Z s = (s \<noteq> [] \<and> last s = CHR ''Z'')"

definition replace_Z :: "string \<Rightarrow> string" where
  "replace_Z s = concat (map (\<lambda>c. if c = CHR ''Z'' then ''+00:00'' else [c]) s)"

definition parse_start_date :: "(string \<Rightarrow> pydatetime option) \<Rightarrow> string \<Rightarrow> pydatetime option" where
  "parse_start_date fromiso s =
     (if endswith_Z s then fromiso (replace_Z s) else fromiso s)"

fun collect_dates :: "(string \<Rightarrow> pydatetime option) \<Rightarrow> ad_record list \<Rightarrow> pydatetime list" where
  "collect_dates fromiso [] = []"
| "collect_dates fromiso (ad # ads) =
     (if truthy (start_date ad)
      then (case parse_start_date fromiso (get_or (start_date ad) []) of
              Some d \<Rightarrow> d # collect_dates fromiso ads
            | None \<Rightarrow> collect_dates fromiso ads)
      else collect_dates fromiso ads)"

definition to_naive :: "pydatetime \<Rightarrow> pydatetime" where
  "to_naive d = (if utcoffset d \<noteq> None then d\<lparr>utcoffset := None\<rparr> else d)"

text \<open>\<open>timedelta.days\<close> of a difference of two naive values: the floor of the
  microseconds over one day.\<close>

definition delta_days :: "pydatetime \<Rightarrow> pydatetime \<Rightarrow> int" where
  "delta_days a b = (wall a - wall b) div 86400000000"

datatype date_patterns =
    No_date_data
  | Date_patterns (total_with_dates: nat) (recent_ads_30_days: nat)
      (earliest: pydatetime) (latest: pydatetime)

text \<open>
  \<open>_analyze_date_patterns\<close>.  The loop over \<open>dates\<close> compares \<open>now\<close> with the naive
  form of each date and keeps the date itself; the subtraction of two naive values
  does not raise.  The date range is then taken with \<open>min(dates)\<close> and \<open>max(dates)\<close>,
  over the dates as parsed.  \<open>isoformat\<close> renders the value found; the value is kept.
\<close>

definition analyze_date_patterns ::
  "(string \<Rightarrow> pydatetime option) \<Rightarrow> pydatetime \<Rightarrow> ad_record list \<Rightarrow> py_error + date_patterns" where
  "analyze_date_patterns fromiso now ads_data =
     (let dates = collect_dates fromiso ads_data in
        if dates = [] then Inr No_date_data
        else
          let recent_ads = filter (\<lambda>d. delta_days now (to_naive d) \<le> 30) dates in
            (case py_min dates of
               Inl e \<Rightarrow> Inl e
             | Inr mn \<Rightarrow>
                 (case py_max dates of
                    Inl e \<Rightarrow> Inl e
                  | Inr mx \<Rightarrow> Inr (Date_patterns (length dates) (length recent_ads) mn mx))))"

datatype analysis_period =
    No_date_information
  | Period (period_earliest: pydatetime) (period_latest: pydatetime) (period_days: int)

text \<open>\<open>_get_analysis_period\<close>: the same dates, every one made naive before
  \<open>min\<close> and \<open>max\<close>.\<close>

definition get_analysis_period ::
  "(string \<Rightarrow> pydatetime option) \<Rightarrow> ad_record list \<Rightarrow> py_error + analysis_period" where
  "get_analysis_period fromiso ads_data =
     (let dates = collect_dates fromiso ads_data in
        if dates \<noteq> [] then
          let naive_dates = map to_naive dates in
            (case py_min naive_dates of
               Inl e \<Rightarrow> Inl e
             | Inr mn \<Rightarrow>
                 (case py_max naive_dates of
                    Inl e \<Rightarrow> Inl e
                  | Inr mx \<Rightarrow> Inr (Period mn mx (delta_days mx mn))))
        else Inr No_date_information)"

record overview_trends =
  total_ads_analyzed :: nat
  media_type_distribution :: "(string \<times> nat) list"
  date_patterns :: date_patterns
  top_brands :: "(string \<times> nat) list"
  analysis_period :: analysis_period

definition analyze_overview_trends ::
  "(string \<Rightarrow> pydatetime option) \<Rightarrow> pydatetime \<Rightarrow> ad_record list \<Rightarrow> py_error + overview_trends" where
  "analyze_overview_trends fromiso now ads_data =
     (let total_ads = length ads_data;
          media_types = counter_update (map (\<lambda>ad. get_or (media_type ad) ''UNKNOWN'') ads_data) []
      in
        case analyze_date_patterns fromiso now ads_data of
          Inl e \<Rightarrow> Inl e
        | Inr dp \<Rightarrow>
            (let brands = counter_update (map (\<lambda>ad. get_or (page_name ad) ''Unknown'') ads_data) [] in
               case get_analysis_period fromiso ads_data of
                 Inl e \<Rightarrow> Inl e
               | Inr ap \<Rightarrow>
                   Inr \<lparr>total_ads_analyzed = total_ads,
                        media_type_distribution = media_types,
                        date_patterns = dp,
                        top_brands = most_common 10 brands,
                        analysis_period = ap\<rparr>))"

record content_trends =
  word_frequency :: "(string \<times> nat) list"
  phrase_patterns :: "(string \<times> nat) list"

text \<open>\<open>_analyze_content_trends\<close>, its two frequency tables, over the bodies that are
  present and not empty.\<close>

definition analyze_content_trends :: "ad_record list \<Rightarrow> content_trends" where
  "analyze_content_trends ads_data =
     (let all_text = map (\<lambda>ad. get_or (body ad) []) (filter (\<lambda>ad. truthy (body ad)) ads_data) in
        \<lparr>word_frequency = analyze_word_frequency all_text,
         phrase_patterns = analyze_phrase_patterns all_text\<rparr>)"

text \<open>
  The \<open>trends\<close> dictionary.  Its first entry, \<open>overview\<close>, is the only one whose
  computation can raise on records of this type; the entries after \<open>content_trends\<close>
  (visual, video, messaging, format, recommendations, analyzed videos, reasoning) are
  keyword counts and fixed rule lists over the same fields, and are not carried here.
\<close>

record trends_record =
  overview :: overview_trends
  content :: content_trends

datatype trends_object = Empty_trends | Trends trends_record

record metadata_record =
  total_ads :: nat
  image_ads :: nat
  video_ads :: nat
  analysis_type :: string
  analyzed_at :: pydatetime

record trend_result =
  success :: bool
  message :: string
  trends :: trends_object
  analysis_metadata :: "metadata_record option"
  error :: "string option"

text \<open>Decimal rendering of a count inside an f-string.\<close>

function str_of_nat :: "nat \<Rightarrow> string" where
  "str_of_nat n =
     (if n < 10 then [char_of (48 + n)]
      else str_of_nat (n div 10) @ [char_of (48 + n mod 10)])"
  by pat_completeness auto
termination
  by (relation "measure id") auto

declare str_of_nat.simps [simp del]

text \<open>
  \<open>analyze_trends_from_ads\<close>.  The whole body runs inside \<open>try\<close>; an exception raised
  while the \<open>trends\<close> dictionary is built is caught and gives the failure envelope, which
  has no \<open>analysis_metadata\<close> key.  \<open>now\<close> is the clock, read by \<open>datetime.now()\<close>.
\<close>

definition analyze_trends_from_ads ::
  "(string \<Rightarrow> pydatetime option) \<Rightarrow> pydatetime \<Rightarrow> ad_record list \<Rightarrow> string \<Rightarrow> trend_result" where
  "analyze_trends_from_ads fromiso now ads_data a_type =
     (if ads_data = [] then
        \<lparr>success = False, message = ''No ads data provided for analysis'',
         trends = Empty_trends, analysis_metadata = None, error = Some ''Empty ads data''\<rparr>
      else
        let image = filter (\<lambda>ad. media_type ad = Some ''IMAGE'') ads_data;
            video = filter (\<lambda>ad. media_type ad = Some ''VIDEO'') ads_data
        in
          case analyze_overview_trends fromiso now ads_data of
            Inl e \<Rightarrow>
              \<lparr>success = False, message = ''Failed to analyze trends: '' @ str_of_error e,
               trends = Empty_trends, analysis_metadata = None, error = Some (str_of_error e)\<rparr>
          | Inr ov \<Rightarrow>
              \<lparr>success = True,
               message = ''Successfully analyzed trends from '' @ str_of_nat (length ads_data) @ '' ads'',
               trends = Trends \<lparr>overview = ov, content = analyze_content_trends ads_data\<rparr>,
               analysis_metadata = Some \<lparr>total_ads = length ads_data, image_ads = length image,
                                video_ads = length video, analysis_type = a_type,
                                analyzed_at = now\<rparr>,
               error = None\<rparr>)"

text \<open>
  The library's \<open>datetime.fromisoformat\<close> on the format \<open>YYYY-MM-DDTHH:MM:SS\<close> with an
  optional offset \<open>+HH:MM\<close> or \<open>-HH:MM\<close>.  It rejects every other string, of which the
  library accepts some, and is used only to evaluate the functions above on concrete
  records.
\<close>

definition digit :: "char \<Rightarrow> nat option" where
  "digit c = (let n = of_char c :: nat in if 48 \<le> n \<and> n \<le> 57 then Some (n - 48) else None)"

fun number_from :: "nat \<Rightarrow> string \<Rightarrow> nat option" where
  "number_from acc [] = Some acc"
| "number_from acc (c # cs) =
     (case digit c of None \<Rightarrow> None | Some v \<Rightarrow> number_from (10 * acc + v) cs)"

definition number :: "string \<Rightarrow> nat option" where
  "number s = (if s = [] then None else number_from 0 s)"

definition is_leap :: "nat \<Rightarrow> bool" where
  "is_leap y = (y mod 4 = 0 \<and> (y mod 100 \<noteq> 0 \<or> y mod 400 = 0))"

definition days_in_month :: "nat \<Rightarrow> nat \<Rightarrow> nat" where
  "days_in_month y m =
     (if m = 2 then (if is_leap y then 29 else 28)
      else if m = 4 \<or> m = 6 \<or> m = 9 \<or> m = 11 then 30 else 31)"

text \<open>Days from 1970-01-01 to a date of the proleptic Gregorian calendar.\<close>

definition days_from_civil :: "int \<Rightarrow> int \<Rightarrow> int \<Rightarrow> int" where
  "days_from_civil y m d =
     (let y' = (if m \<le> 2 then y - 1 else y);
          era = y' div 400;
          yoe = y' - era * 400;
          doy = (153 * (if m > 2 then m - 3 else m + 9) + 2) div 5 + d - 1;
          doe = yoe * 365 + yoe div 4 - yoe div 100 + doy
      in era * 146097 + doe - 719468)"

definition parse_offset :: "string \<Rightarrow> int option option" where
  "parse_offset s =
     (if s = [] then Some None
      else if length s = 6 \<and> (s ! 0 = CHR ''+'' \<or> s ! 0 = CHR ''-'') \<and> s ! 3 = CHR '':'' then
        (case (number (take 2 (drop 1 s)), number (drop 4 s)) of
           (Some h, Some m) \<Rightarrow>
             (if h < 24 \<and> m < 60
              then Some (Some ((if s ! 0 = CHR ''-'' then - 1 else 1) *
                               (int h * 3600 + int m * 60) * 1000000))
              else None)
         | _ \<Rightarrow> None)
      else None)"

definition fromisoformat_basic :: "string \<Rightarrow> pydatetime option" where
  "fromisoformat_basic s =
     (if 19 \<le> length s \<and> s ! 4 = CHR ''-'' \<and> s ! 7 = CHR ''-'' \<and> s ! 10 = CHR ''T'' \<and>
         s ! 13 = CHR '':'' \<and> s ! 16 = CHR '':'' then
        (case (number (take 4 s), number (take 2 (drop 5 s)), number (take 2 (drop 8 s)),
               number (take 2 (drop 11 s)), number (take 2 (drop 14 s)),
               number (take 2 (drop 17 s)), parse_offset (drop 19 s)) of
           (Some y, Some mo, Some d, Some h, Some mi, Some sec, Some off) \<Rightarrow>
             (if 1 \<le> y \<and> 1 \<le> mo \<and> mo \<le> 12 \<and> 1 \<le> d \<and> d \<le> days_in_month y mo \<and>
                 h < 24 \<and> mi < 60 \<and> sec < 60
              then Some \<lparr>wall = (((days_from_civil (int y) (int mo) (int d) * 24 + int h) * 60
                                   + int mi) * 60 + int sec) * 1000000,
                         utcoffset = off\<rparr>
              else None)
         | _ \<Rightarrow> None)
      else None)"

text \<open>Whether a datetime is timezone-aware, and whether the datetimes of a list are
  all aware or all naive.\<close>

definition aware :: "pydatetime \<Rightarrow> bool" where
  "aware d = (utcoffset d \<noteq> None)"

definition uniform :: "pydatetime list \<Rightarrow> bool" where
  "uniform ds = (\<forall>a\<in>set ds. \<forall>b\<in>set ds. aware a = aware b)"

text \<open>Two ads, the first with a \<open>Z\<close>-suffixed start date and the second with a bare
  one.\<close>

definition mixed_ads :: "ad_record list" where
  "mixed_ads =
     [\<lparr>page_name = Some ''Acme'', media_type = Some ''VIDEO'', body = Some ''Free trial'',
       start_date = Some ''2024-01-01T00:00:00Z''\<rparr>,
      \<lparr>page_name = Some ''Acme'', media_type = Some ''IMAGE'', body = Some ''Free trial'',
       start_date = Some ''2024-01-02T00:00:00''\<rparr>]"

section \<open>Competitor-insight script compiler\<close>

text \<open>
  String operations of the Python library used by
  \<open>generate_video_prompt_from_insights\<close>.  \<open>sub in s\<close> is \<open>sublist sub s\<close>.  A character
  outside ASCII in a literal of the source is held as its UTF-8 bytes.
\<close>

definition nl :: string where
  "nl = [CHR 0x0A]"

definition is_space :: "char \<Rightarrow> bool" where
  "is_space c = (let n = of_char c :: nat in (9 \<le> n \<and> n \<le> 13) \<or> (28 \<le> n \<and> n \<le> 32))"

definition strip_with :: "(char \<Rightarrow> bool) \<Rightarrow> string \<Rightarrow> string" where
  "strip_with p s = rev (dropWhile p (rev (dropWhile p s)))"

definition strip :: "string \<Rightarrow> string" where
  "strip s = strip_with is_space s"

definition upper_char :: "char \<Rightarrow> char" where
  "upper_char c = (if is_lower c then char_of (of_char c - (32 :: nat)) else c)"

definition upper :: "string \<Rightarrow> string" where
  "upper s = map upper_char s"

text \<open>
  \<open>s.split(sep)\<close> for a separator that is not empty: \<open>cur\<close> is the part being read, in
  reverse, and \<open>skip\<close> counts the characters of a separator just found that are still
  to be passed over.
\<close>

fun split_aux :: "string \<Rightarrow> nat \<Rightarrow> string \<Rightarrow> string \<Rightarrow> string list" where
  "split_aux sep skip cur [] = [rev cur]"
| "split_aux sep skip cur (c # cs) =
     (if 0 < skip then split_aux sep (skip - 1) cur cs
      else if prefix sep (c # cs) then rev cur # split_aux sep (length sep - 1) [] cs
      else split_aux sep 0 (c # cur) cs)"

definition py_split :: "string \<Rightarrow> string \<Rightarrow> string list" where
  "py_split sep s = split_aux sep 0 [] s"

text \<open>
  The webpage brief and the video insights, with the keys the compiler reads.  The
  value under \<open>insights\<close> is a dictionary, of which the \<open>raw_analysis\<close> string is read,
  or a plain string.
\<close>

record webpage_brief =
  brief_success :: bool
  brief_analysis :: "string option"
  brief_title :: "string option"

datatype insights_value = Insights_dict "string option" | Insights_text string

record video_insight =
  insight_page_name :: "string option"
  insight_insights :: "insights_value option"

record competitor =
  brand :: string
  analysis :: string

text \<open>\<open>analysis_text.split(header)[1].split('\n\n')[0].strip()\<close>, when the header occurs.\<close>

definition extract_section :: "string \<Rightarrow> string \<Rightarrow> string" where
  "extract_section header analysis_text =
     (if sublist header analysis_text
      then strip (hd (py_split (nl @ nl) (py_split header analysis_text ! 1)))
      else [])"

definition raw_analysis_of :: "video_insight \<Rightarrow> string" where
  "raw_analysis_of insight =
     (case insight_insights insight of
        None \<Rightarrow> []
      | Some (Insights_dict r) \<Rightarrow> get_or r []
      | Some (Insights_text t) \<Rightarrow> t)"

fun collect_competitors :: "video_insight list \<Rightarrow> competitor list" where
  "collect_competitors [] = []"
| "collect_competitors (insight # rest) =
     (if raw_analysis_of insight \<noteq> []
      then \<lparr>brand = get_or (insight_page_name insight) ''Unknown'',
            analysis = raw_analysis_of insight\<rparr> # collect_competitors rest
      else collect_competitors rest)"

definition opening_lines :: "string \<Rightarrow> string list" where
  "opening_lines a =
     (if sublist ''opening'' (lower a) \<or> sublist ''start'' (lower a)
      then map (\<lambda>line. strip_with (\<lambda>c. c = CHR ''-'' \<or> c = CHR '' '')
                           (filter (\<lambda>c. c \<noteq> CHR ''*'') (strip line)))
             (filter (\<lambda>line. (sublist ''opening'' (lower line) \<or> sublist ''start'' (lower line)) \<and>
                              length (strip line) > 30)
                (py_split nl a))
      else [])"

definition techniques_of :: "string \<Rightarrow> string list" where
  "techniques_of a =
     (if sublist ''split screen'' (lower a) \<or> sublist ''split-screen'' (lower a)
      then [''split-screen composition''] else []) @
     (if sublist ''close-up'' (lower a) \<or> sublist ''close up'' (lower a)
      then [''close-up product shots''] else []) @
     (if sublist ''before/after'' (lower a) \<or> sublist ''before and after'' (lower a)
      then [''before/after comparison''] else [])"

definition bar :: string where
  "bar = replicate 80 (CHR ''='') @ nl"

definition rule_line :: string where
  "rule_line = concat (replicate 78 [CHR 0xE2, CHR 0x94, CHR 0x81]) @ nl"

definition check_mark :: string where
  "check_mark = [CHR 0xE2, CHR 0x9C, CHR 0x93]"

definition named_product :: "string \<Rightarrow> bool" where
  "named_product product_name = (product_name \<noteq> [] \<and> product_name \<noteq> ''your product'')"

definition advertising_block ::
  "bool \<Rightarrow> string \<Rightarrow> string \<Rightarrow> string \<Rightarrow> string \<Rightarrow> string \<Rightarrow> string" where
  "advertising_block with_brief product_name product_description target_audience_info brand_tone user_query =
     (if with_brief then
        ''Product/Service: '' @ product_name @ nl @ nl @
        (if product_description \<noteq> [] then product_description @ nl @ nl else []) @
        (if target_audience_info \<noteq> [] then ''Target Audience:'' @ nl @ target_audience_info @ nl @ nl else []) @
        (if brand_tone \<noteq> [] then ''Brand Identity:'' @ nl @ brand_tone @ nl @ nl else [])
      else ''Product/Service: '' @ user_query @ nl @ nl)"

definition scene_1 :: "string \<Rightarrow> string list \<Rightarrow> string list \<Rightarrow> string" where
  "scene_1 product_name opening_shots visual_techniques =
     ''SCENE 1: OPENING (0-3 seconds)'' @ nl @ rule_line @
     (if named_product product_name
      then ''Visual: Show '' @ product_name @ '' prominently''
      else ''Visual: Show the product prominently'') @
     (case opening_shots of
        shot # _ \<Rightarrow> '' using technique: '' @ take 150 shot @ nl
      | [] \<Rightarrow> '' with clean, professional composition'' @ nl) @
     (if ''split-screen'' \<in> set visual_techniques
      then ''Composition: Split-screen - product on one side, benefit/result on other'' @ nl
      else ''Composition: Center-framed, immediate visual impact'' @ nl) @
     nl"

definition scene_2 :: "string \<Rightarrow> string" where
  "scene_2 target_audience_info =
     ''SCENE 2: PROBLEM/HOOK (3-5 seconds)'' @ nl @ rule_line @
     (if target_audience_info \<noteq> []
      then ''Visual: Show scenario that resonates with target audience: '' @
           take 200 target_audience_info @ nl
      else ''Visual: Show relatable problem scenario'' @ nl) @
     ''Text Overlay: Problem statement or attention-grabbing question'' @ nl @
     nl"

definition scene_3 :: "string \<Rightarrow> string \<Rightarrow> string list \<Rightarrow> string" where
  "scene_3 product_name product_description visual_techniques =
     ''SCENE 3: SOLUTION/PRODUCT SHOWCASE (5-15 seconds)'' @ nl @ rule_line @
     (if product_description \<noteq> []
      then ''Visual: Demonstrate '' @ product_name @ '' in action'' @ nl @
           ''Show: '' @ take 300 product_description @ nl
      else ''Visual: Demonstrate product solving the problem'' @ nl) @
     (if ''close-up'' \<in> set visual_techniques
      then ''Include: Close-up shots of key features and UI/interface'' @ nl else []) @
     (if ''before/after'' \<in> set visual_techniques
      then ''Show: Before/after comparison demonstrating transformation'' @ nl else []) @
     ''Pacing: Quick cuts every 2-3 seconds to maintain attention'' @ nl @
     nl"

definition scene_4 :: "string \<Rightarrow> string \<Rightarrow> string" where
  "scene_4 product_name brand_tone =
     ''SCENE 4: BENEFITS & SOCIAL PROOF (15-20 seconds)'' @ nl @ rule_line @
     ''Visual: Show '' @ product_name @ '' delivering results'' @ nl @
     ''Text Overlays: Key benefits, statistics, or user testimonials'' @ nl @
     (if brand_tone \<noteq> [] then ''Tone: '' @ take 200 brand_tone @ nl else []) @
     nl"

definition scene_5 :: "string \<Rightarrow> string" where
  "scene_5 cta_info =
     ''SCENE 5: CALL-TO-ACTION (20-25 seconds)'' @ nl @ rule_line @
     (if cta_info \<noteq> []
      then ''Action: '' @ take 200 cta_info @ nl
      else ''Action: Clear call-to-action ('' @ [CHR 0x22] @ ''Get Started'' @ [CHR 0x22] @ '', '' @
           [CHR 0x22] @ ''Download Now'' @ [CHR 0x22] @ '', etc.)'' @ nl) @
     ''Visual: Product logo/branding with CTA button overlay'' @ nl @
     ''Urgency: Add time-limited offer or special incentive if applicable'' @ nl @
     nl"

fun competitor_lines :: "nat \<Rightarrow> competitor list \<Rightarrow> string" where
  "competitor_lines i [] = []"
| "competitor_lines i (competitor # comps) =
     nl @ ''Competitor '' @ str_of_nat i @ '' ('' @ brand competitor @ ''):'' @ nl @
     ''  Applied techniques: '' @ strip (take 300 (analysis competitor)) @ ''...'' @ nl @
     competitor_lines (i + 1) comps"

text \<open>The loop over \<open>set(visual_techniques[:3])\<close> visits each distinct technique once;
  the order of a set of strings is not fixed by the source, here it is that of first
  occurrence.\<close>

definition final_block :: "string \<Rightarrow> string \<Rightarrow> string list \<Rightarrow> bool \<Rightarrow> nat \<Rightarrow> string" where
  "final_block generator_type product_name visual_techniques with_brief n_competitors =
     (if named_product product_name
      then ''Create a '' @ upper generator_type @ '' video advertising '' @ product_name @ '' that:'' @ nl @ nl
      else ''Create a '' @ upper generator_type @ '' video that:'' @ nl @ nl) @
     ''1. Opens with immediate visual impact showing '' @
       (if product_name \<noteq> ''your product'' then product_name else ''the product'') @ nl @
     ''2. Demonstrates the product solving a real problem'' @ nl @
     ''3. Uses proven techniques from successful competitor videos:'' @ nl @
     concat (map (\<lambda>tech. ''   - '' @ tech @ nl) (remdups (take 3 visual_techniques))) @
     ''4. Ends with a strong, clear call-to-action'' @ nl @
     ''5. Duration: 20-30 seconds, fast-paced (2-3 second scene changes)'' @ nl @
     (if with_brief
      then nl @ check_mark @ '' This script is specifically tailored for YOUR product: '' @ product_name @ nl @
           check_mark @ '' Incorporates proven strategies from '' @ str_of_nat n_competitors @
           '' competitor videos'' @ nl
      else [])"

text \<open>What the script holds before the first scene and after the last one.\<close>

definition script_head ::
  "string \<Rightarrow> bool \<Rightarrow> string \<Rightarrow> string \<Rightarrow> string \<Rightarrow> string \<Rightarrow> string \<Rightarrow> string" where
  "script_head generator_type with_brief product_name product_description target_audience_info
       brand_tone user_query =
     ''CREATE A '' @ upper generator_type @ '' VIDEO SCRIPT'' @ nl @ nl @
     bar @ ''WHAT WE'' @ [CHR 0x27] @ ''RE ADVERTISING:'' @ nl @ bar @ nl @
     advertising_block with_brief product_name product_description target_audience_info
       brand_tone user_query @
     bar @ ''STEP-BY-STEP VIDEO SCRIPT:'' @ nl @ bar @ nl"

definition script_tail ::
  "string \<Rightarrow> string \<Rightarrow> string list \<Rightarrow> bool \<Rightarrow> competitor list \<Rightarrow> string" where
  "script_tail generator_type product_name visual_techniques with_brief all_competitor_insights =
     bar @ ''TECHNICAL SPECIFICATIONS:'' @ nl @ bar @ nl @
     ''Based on competitor analysis:'' @ nl @
     competitor_lines 1 (take 3 all_competitor_insights) @
     nl @ bar @ ''FINAL VIDEO CONCEPT:'' @ nl @ bar @ nl @
     final_block generator_type product_name visual_techniques with_brief
       (length all_competitor_insights)"

text \<open>
  \<open>generate_video_prompt_from_insights\<close>.  On values of these types no statement of
  the \<open>try\<close> block raises, so the script built by the block is what is returned.
\<close>

definition generate_video_prompt_from_insights ::
  "video_insight list \<Rightarrow> string \<Rightarrow> string \<Rightarrow> webpage_brief option \<Rightarrow> string" where
  "generate_video_prompt_from_insights insights user_query generator_type webpage_analysis =
     (let with_brief = (case webpage_analysis of None \<Rightarrow> False | Some w \<Rightarrow> brief_success w);
          analysis_text = (case webpage_analysis of None \<Rightarrow> [] | Some w \<Rightarrow> get_or (brief_analysis w) []);
          title = (case webpage_analysis of None \<Rightarrow> None | Some w \<Rightarrow> brief_title w);
          product_name = (if with_brief \<and> truthy title then get_or title [] else ''your product'');
          product_description = (if with_brief then extract_section ''PRODUCT/SERVICE OVERVIEW'' analysis_text else []);
          target_audience_info = (if with_brief then extract_section ''TARGET AUDIENCE'' analysis_text else []);
          brand_tone = (if with_brief then extract_section ''BRAND IDENTITY'' analysis_text else []);
          cta_info = (if with_brief then extract_section ''CALL-TO-ACTION'' analysis_text else []);
          all_competitor_insights = collect_competitors insights;
          opening_shots = concat (map (\<lambda>competitor. opening_lines (analysis competitor)) all_competitor_insights);
          visual_techniques = concat (map (\<lambda>competitor. techniques_of (analysis competitor)) all_competitor_insights)
      in
        script_head generator_type with_brief product_name product_description
          target_audience_info brand_tone user_query @
        scene_1 product_name opening_shots visual_techniques @
        scene_2 target_audience_info @
        scene_3 product_name product_description visual_techniques @
        scene_4 product_name brand_tone @
        scene_5 cta_info @
        script_tail generator_type product_name visual_techniques with_brief
          all_competitor_insights)"

section \<open>Script/description generation engine\<close>

text \<open>
  The trend insights that \<open>_extract_trend_insights\<close> reads from \<open>trends_data\<close>, a
  key that is absent read as its default.  The entries read by the functions below
  are the fields; the other entries are in the extension of the record.
  \<open>trends_data\<close> itself is \<open>None\<close> when it is the empty dictionary.
\<close>

record trend_insights =
  common_words :: "(string \<times> nat) list"
  themes :: "string list"
  image_count :: nat
  video_count :: nat
  emotional_tone :: "(string \<times> nat) list"
  format_distribution :: "(string \<times> nat) list"

definition supported_generators :: "string list" where
  "supported_generators = [''veo'', ''runway'', ''pika'', ''stable_video'', ''sora'']"

text \<open>\<open>d.get(k, default)\<close> on a dictionary with string keys, and \<open>', '.join\<close>.\<close>

definition dict_get :: "(string \<times> 'v) list \<Rightarrow> string \<Rightarrow> 'v \<Rightarrow> 'v" where
  "dict_get d k dflt = (case map_of d k of None \<Rightarrow> dflt | Some v \<Rightarrow> v)"

fun join :: "string \<Rightarrow> string list \<Rightarrow> string" where
  "join sep [] = []"
| "join sep [x] = x"
| "join sep (x # y # ys) = x @ sep @ join sep (y # ys)"

text \<open>\<open>max(items, key=count)\<close>: the first item of greatest count.\<close>

fun max_from_count :: "(string \<times> nat) \<Rightarrow> (string \<times> nat) list \<Rightarrow> (string \<times> nat)" where
  "max_from_count best [] = best"
| "max_from_count best (x # xs) = max_from_count (if snd best < snd x then x else best) xs"

definition dominant_tone :: "(string \<times> nat) list \<Rightarrow> string" where
  "dominant_tone tones = (case tones of [] \<Rightarrow> ''positive'' | x # xs \<Rightarrow> fst (max_from_count x xs))"

text \<open>The dictionaries \<open>emotional_prefixes\<close> and \<open>technical_prefixes\<close> of the two
  functions that follow.\<close>

definition emotional_prefixes :: "(string \<times> string) list" where
  "emotional_prefixes =
     [(''urgent'', ''Create an emotionally charged video that builds tension and urgency. ''),
      (''positive'', ''Develop an uplifting, inspiring narrative that creates emotional connection. ''),
      (''exclusive'', ''Craft a sophisticated, premium experience that conveys exclusivity. ''),
      (''social'', ''Build a relatable, community-focused story that emphasizes human connection. '')]"

definition technical_prefixes :: "(string \<times> string) list" where
  "technical_prefixes =
     [(''veo'', ''Optimize for Veo's cinematic capabilities with photorealistic rendering. ''),
      (''runway'', ''Leverage Runway's creative tools for artistic expression. ''),
      (''pika'', ''Utilize Pika's artistic capabilities for creative storytelling. ''),
      (''stable_video'', ''Apply Stable Video's reliable generation for consistent output. ''),
      (''sora'', ''Harness Sora's advanced features for high-quality realism. '')]"

definition create_emotional_variation :: "string \<Rightarrow> 'a trend_insights_scheme \<Rightarrow> string" where
  "create_emotional_variation base_description insights =
     dict_get emotional_prefixes (dominant_tone (emotional_tone insights))
       ''Create an emotionally engaging video that resonates deeply with viewers. ''
     @ base_description"

definition create_technical_variation :: "string \<Rightarrow> string \<Rightarrow> string" where
  "create_technical_variation base_description generator_type =
     dict_get technical_prefixes (lower generator_type)
       ''Focus on technical excellence and high-quality output. ''
     @ base_description"

definition create_competitive_variation :: "string \<Rightarrow> 'a trend_insights_scheme \<Rightarrow> string" where
  "create_competitive_variation base_description insights =
     (if themes insights \<noteq> []
      then ''Differentiate by emphasizing '' @ join '', '' (take 2 (themes insights)) @
           '' themes that competitors are missing. ''
      else ''Stand out from competitors with unique positioning and messaging. '')
     @ base_description"

definition create_unique_variations ::
  "string \<Rightarrow> 'a trend_insights_scheme \<Rightarrow> string \<Rightarrow> string list" where
  "create_unique_variations base_description insights generator_type =
     [] @ [create_emotional_variation base_description insights]
        @ [create_technical_variation base_description generator_type]
        @ [create_competitive_variation base_description insights]"

record recommendations =
  content_recommendations :: "string list"
  visual_recommendations :: "string list"
  technical_recommendations :: "string list"
  optimization_recommendations :: "string list"

definition generate_recommendations ::
  "string \<Rightarrow> 'a trend_insights_scheme \<Rightarrow> string \<Rightarrow> recommendations" where
  "generate_recommendations user_query insights generator_type =
     \<lparr>content_recommendations =
        (if common_words insights \<noteq> []
         then [''Incorporate trending keywords: '' @ join '', '' (take 3 (map fst (common_words insights)))]
         else []) @
        (if themes insights \<noteq> []
         then [''Focus on trending themes: '' @ join '', '' (take 3 (themes insights))]
         else []),
      visual_recommendations =
        (if image_count insights < video_count insights
         then [''Prioritize video content over static images''] else []) @
        [''Ensure high visual quality and clear composition'',
         ''Use attention-grabbing visuals in the first 3 seconds''],
      technical_recommendations =
        [''Optimize for '' @ upper generator_type @ '' capabilities and limitations'',
         ''Test different aspect ratios for platform optimization'',
         ''Consider mobile-first design for social media''],
      optimization_recommendations =
        [''A/B test different versions'', ''Monitor performance metrics'',
         ''Iterate based on engagement data'']\<rparr>"

record technical_specs =
  spec_generator_type :: string
  recommended_aspect_ratio :: string
  recommended_resolution :: string
  recommended_duration :: string
  optimization_tips :: "string list"

definition generate_technical_specs :: "'a trend_insights_scheme \<Rightarrow> string \<Rightarrow> technical_specs" where
  "generate_technical_specs insights generator_type =
     \<lparr>spec_generator_type = generator_type,
      recommended_aspect_ratio = ''16:9'',
      recommended_resolution = ''1080p'',
      recommended_duration = ''5-15 seconds'',
      optimization_tips =
        (if 0 < dict_get (format_distribution insights) ''VIDEO'' 0
         then [''Video content is trending - prioritize motion and transitions''] else []) @
        dict_get
          [(''veo'', [''Use clear, descriptive prompts'', ''Focus on smooth motion'', ''Avoid complex scenes'']),
           (''runway'', [''Leverage creative editing features'', ''Use style consistency'',
                         ''Optimize for artistic expression'']),
           (''pika'', [''Emphasize artistic style'', ''Use creative animations'', ''Focus on visual appeal'']),
           (''stable_video'', [''Keep prompts simple'', ''Ensure stable generation'', ''Use consistent style'']),
           (''sora'', [''Leverage advanced capabilities'', ''Use detailed descriptions'', ''Focus on realism''])]
          (lower generator_type) []\<rparr>"

text \<open>
  The result envelope of \<open>generate_video_description\<close>.  A key that a failure envelope
  does not have is \<open>None\<close>.  The fields \<open>success\<close>, \<open>message\<close>, \<open>generator_type\<close> and
  \<open>error\<close> carry the prefix \<open>gen\<close>, the names being taken by the trend analysis.
\<close>

record description_result =
  gen_success :: bool
  gen_message :: string
  video_description :: string
  variations :: "string list option"
  recommendations :: "recommendations option"
  technical_specifications :: "technical_specs option"
  gen_generator_type :: "string option"
  generated_at :: "pydatetime option"
  gen_error :: "string option"

definition description_failure :: "string \<Rightarrow> string \<Rightarrow> description_result" where
  "description_failure msg err =
     \<lparr>gen_success = False, gen_message = msg, video_description = [], variations = None,
      recommendations = None, technical_specifications = None, gen_generator_type = None,
      generated_at = None, gen_error = Some err\<rparr>"

text \<open>
  \<open>generate_video_description\<close>.  The narrative text of \<open>_create_video_description\<close>,
  six template segments chosen by keywords of the query and of the insights, is the
  parameter \<open>describe\<close>: any function of the query, the insights, the generator type
  after validation and the style preferences, which returns a text or raises.  What is
  raised inside \<open>try\<close> gives the failure envelope.
\<close>

definition generate_video_description ::
  "(string \<Rightarrow> 'a trend_insights_scheme \<Rightarrow> string \<Rightarrow> 'p \<Rightarrow> py_error + string) \<Rightarrow> pydatetime \<Rightarrow>
   string \<Rightarrow> 'a trend_insights_scheme option \<Rightarrow> string \<Rightarrow> 'p \<Rightarrow> description_result" where
  "generate_video_description describe now user_query trends_data generator_type style_preferences =
     (case trends_data of
        None \<Rightarrow> description_failure ''User query and trends data are required''
                  ''Missing required parameters''
      | Some insights \<Rightarrow>
          if user_query = [] then
            description_failure ''User query and trends data are required''
              ''Missing required parameters''
          else
            let g = (if lower generator_type \<notin> set supported_generators then ''veo''
                     else generator_type)
            in case describe user_query insights g style_preferences of
                 Inl e \<Rightarrow>
                   description_failure (''Failed to generate video description: '' @ str_of_error e)
                     (str_of_error e)
               | Inr description \<Rightarrow>
                   \<lparr>gen_success = True,
                    gen_message = ''Generated unique video descriptions for '' @ upper g,
                    video_description = description,
                    variations = Some (create_unique_variations description insights g),
                    recommendations = Some (generate_recommendations user_query insights g),
                    technical_specifications = Some (generate_technical_specs insights g),
                    gen_generator_type = Some g,
                    generated_at = Some now,
                    gen_error = None\<rparr>)"

text \<open>
  The insight-driven path.  \<open>str.title\<close> puts a capital at the start of every run of
  letters and lower-cases the rest of the run.
\<close>

fun title_aux :: "bool \<Rightarrow> string \<Rightarrow> string" where
  "title_aux in_word [] = []"
| "title_aux in_word (c # cs) =
     (if is_alpha c then (if in_word then lower_char c else upper_char c) # title_aux True cs
      else c # title_aux False cs)"

definition title :: "string \<Rightarrow> string" where
  "title s = title_aux False s"

definition keywords_in :: "string list \<Rightarrow> string \<Rightarrow> string list" where
  "keywords_in keywords text_lower =
     map title (filter (\<lambda>keyword. sublist keyword text_lower) keywords)"

definition extract_themes_from_text :: "string \<Rightarrow> string list" where
  "extract_themes_from_text t =
     keywords_in
       [''product'', ''service'', ''quality'', ''price'', ''value'', ''benefit'',
        ''feature'', ''advantage'', ''solution'', ''problem'', ''need'',
        ''lifestyle'', ''emotion'', ''story'', ''testimonial'', ''review'',
        ''comparison'', ''competition'', ''unique'', ''special'', ''exclusive'']
       (lower t)"

definition extract_visual_patterns :: "string \<Rightarrow> string list" where
  "extract_visual_patterns t =
     keywords_in
       [''color'', ''bright'', ''dark'', ''contrast'', ''animation'', ''motion'',
        ''close-up'', ''wide shot'', ''text overlay'', ''logo'', ''brand'',
        ''people'', ''faces'', ''hands'', ''product shot'', ''lifestyle'',
        ''background'', ''foreground'', ''lighting'', ''shadow'']
       (lower t)"

definition extract_messaging_strategies :: "string \<Rightarrow> string list" where
  "extract_messaging_strategies t =
     keywords_in
       [''call to action'', ''cta'', ''buy now'', ''learn more'', ''discover'',
        ''limited time'', ''offer'', ''discount'', ''sale'', ''free'',
        ''testimonial'', ''review'', ''rating'', ''star'', ''recommendation'',
        ''social proof'', ''trust'', ''credibility'', ''authority'']
       (lower t)"

text \<open>
  The combined insights.  The technical insights and the brand tally, which nothing
  later reads, are not carried.  \<open>list(set(xs))[:10]\<close> keeps ten of the distinct
  elements; the order of a set of strings is not fixed by the source, here it is that of
  first occurrence.
\<close>

record combined_insights =
  total_videos :: nat
  common_themes :: "string list"
  visual_patterns :: "string list"
  messaging_strategies :: "string list"

text \<open>The loop of \<open>_extract_combined_insights\<close>: \<open>video_data.get\<close> raises on a value
  under \<open>insights\<close> that is a string.\<close>

fun extract_loop :: "video_insight list \<Rightarrow> combined_insights \<Rightarrow> py_error + combined_insights" where
  "extract_loop [] combined = Inr combined"
| "extract_loop (insight # rest) combined =
     (case insight_insights insight of
        Some (Insights_text t) \<Rightarrow>
          Inl (AttributeError ([CHR 0x27] @ ''str'' @ [CHR 0x27] @ '' object has no attribute '' @ [CHR 0x27] @ ''get'' @ [CHR 0x27]))
      | _ \<Rightarrow>
          (let raw_analysis = raw_analysis_of insight in
             if raw_analysis \<noteq> [] then
               extract_loop rest
                 (combined\<lparr>common_themes := common_themes combined @ extract_themes_from_text raw_analysis,
                            visual_patterns := visual_patterns combined @ extract_visual_patterns raw_analysis,
                            messaging_strategies :=
                              messaging_strategies combined @ extract_messaging_strategies raw_analysis\<rparr>)
             else extract_loop rest combined))"

definition extract_combined_insights :: "video_insight list \<Rightarrow> py_error + combined_insights" where
  "extract_combined_insights video_insights =
     (case extract_loop video_insights
             \<lparr>total_videos = length video_insights, common_themes = [], visual_patterns = [],
              messaging_strategies = []\<rparr> of
        Inl e \<Rightarrow> Inl e
      | Inr combined \<Rightarrow>
          Inr (combined\<lparr>common_themes := take 10 (remdups (common_themes combined)),
                         visual_patterns := take 10 (remdups (visual_patterns combined)),
                         messaging_strategies := take 10 (remdups (messaging_strategies combined))\<rparr>))"

record style_preferences =
  mood :: "string option"
  tone :: "string option"

definition create_video_description_from_insights ::
  "string \<Rightarrow> combined_insights \<Rightarrow> string \<Rightarrow> style_preferences option \<Rightarrow> string" where
  "create_video_description_from_insights user_query combined generator_type prefs =
     join '' | ''
       ([''Create a '' @ upper generator_type @ '' video based on the user request: '' @ [CHR 0x27] @
           user_query @ [CHR 0x27]] @
        (if common_themes combined \<noteq> []
         then [''Incorporate these key themes from successful ads: '' @
               join '', '' (take 5 (common_themes combined))] else []) @
        (if visual_patterns combined \<noteq> []
         then [''Use these visual elements: '' @ join '', '' (take 5 (visual_patterns combined))] else []) @
        (if messaging_strategies combined \<noteq> []
         then [''Apply these messaging strategies: '' @
               join '', '' (take 3 (messaging_strategies combined))] else []) @
        [''Optimize for '' @ upper generator_type @ '' video generation'',
         ''Ensure high visual quality and engaging content''] @
        (case prefs of
           None \<Rightarrow> []
         | Some p \<Rightarrow>
             (if truthy (mood p) then [''Maintain a '' @ get_or (mood p) [] @ '' mood throughout''] else []) @
             (if truthy (tone p) then [''Use a '' @ get_or (tone p) [] @ '' tone''] else [])))"

definition create_video_variations ::
  "string \<Rightarrow> combined_insights \<Rightarrow> string \<Rightarrow> style_preferences option \<Rightarrow> string list" where
  "create_video_variations user_query combined generator_type prefs =
     [join '' | ''
        ([''Create an emotionally engaging '' @ upper generator_type @ '' video for: '' @ [CHR 0x27] @
            user_query @ [CHR 0x27],
          ''Focus on emotional connection and storytelling'',
          ''Use warm colors and intimate camera angles''] @
         (if common_themes combined \<noteq> []
          then [''Emphasize themes: '' @ join '', '' (take 3 (common_themes combined))] else [])),
      join '' | ''
        ([''Create a technically impressive '' @ upper generator_type @ '' video for: '' @ [CHR 0x27] @
            user_query @ [CHR 0x27],
          ''Focus on product features and technical specifications'',
          ''Use clean, professional visuals and clear messaging''] @
         (if visual_patterns combined \<noteq> []
          then [''Apply visual patterns: '' @ join '', '' (take 3 (visual_patterns combined))] else [])),
      join '' | ''
        ([''Create a competitive '' @ upper generator_type @ '' video for: '' @ [CHR 0x27] @
            user_query @ [CHR 0x27],
          ''Highlight unique selling points and competitive advantages'',
          ''Use bold visuals and confident messaging''] @
         (if messaging_strategies combined \<noteq> []
          then [''Apply strategies: '' @ join '', '' (take 3 (messaging_strategies combined))] else []))]"

definition create_recommendations_from_insights :: "combined_insights \<Rightarrow> string \<Rightarrow> recommendations" where
  "create_recommendations_from_insights combined generator_type =
     \<lparr>content_recommendations =
        (if common_themes combined \<noteq> []
         then [''Focus on these successful themes: '' @ join '', '' (take 5 (common_themes combined))]
         else []) @
        (if messaging_strategies combined \<noteq> []
         then [''Use these messaging approaches: '' @
               join '', '' (take 3 (messaging_strategies combined))]
         else []),
      visual_recommendations =
        (if visual_patterns combined \<noteq> []
         then [''Incorporate these visual elements: '' @ join '', '' (take 5 (visual_patterns combined))]
         else []),
      technical_recommendations =
        [''Optimize for '' @ upper generator_type, ''Ensure high production quality''],
      optimization_recommendations = [''Test different variations'', ''Monitor engagement metrics'']\<rparr>"

text \<open>\<open>_create_technical_specifications\<close>: the base entries, and the four entries
  (model, style, motion, lighting) of the generator when it is a known one.  The
  combined insights have no \<open>common_duration\<close>, \<open>common_aspect_ratio\<close> or
  \<open>common_style\<close> key, so nothing is overridden.\<close>

record insight_specs =
  resolution :: string
  aspect_ratio :: string
  fps :: nat
  duration :: string
  format :: string
  quality :: string
  generator_entries :: "(string \<times> string \<times> string \<times> string) option"

definition create_technical_specifications :: "string \<Rightarrow> combined_insights \<Rightarrow> insight_specs" where
  "create_technical_specifications generator_type combined =
     \<lparr>resolution = ''1080p'', aspect_ratio = ''16:9'', fps = 30, duration = ''30s'',
      format = ''mp4'', quality = ''high'',
      generator_entries =
        (if lower generator_type = ''veo'' then Some (''veo-2'', ''cinematic'', ''smooth'', ''natural'')
         else if lower generator_type = ''runway'' then Some (''gen-3'', ''realistic'', ''dynamic'', ''dramatic'')
         else if lower generator_type = ''pika'' then Some (''pika-1.0'', ''artistic'', ''fluid'', ''creative'')
         else if lower generator_type = ''stable_video'' then Some (''svd'', ''stable'', ''controlled'', ''balanced'')
         else if lower generator_type = ''sora''
           then Some (''sora-1.0'', ''photorealistic'', ''natural'', ''realistic'')
         else None)\<rparr>"

text \<open>The result envelope of \<open>generate_video_description_from_insights\<close>; its fields
  carry the prefix \<open>ins\<close>.\<close>

record insight_result =
  ins_success :: bool
  ins_message :: string
  ins_video_description :: string
  ins_variations :: "string list option"
  ins_recommendations :: "recommendations option"
  ins_technical_specifications :: "insight_specs option"
  ins_generated_at :: "pydatetime option"
  ins_generator_type :: "string option"
  insights_analyzed :: "nat option"
  ins_error :: "string option"

definition insight_failure :: "string \<Rightarrow> string \<Rightarrow> insight_result" where
  "insight_failure msg err =
     \<lparr>ins_success = False, ins_message = msg, ins_video_description = [], ins_variations = None,
      ins_recommendations = None, ins_technical_specifications = None, ins_generated_at = None,
      ins_generator_type = None, insights_analyzed = None, ins_error = Some err\<rparr>"

definition generate_video_description_from_insights ::
  "pydatetime \<Rightarrow> string \<Rightarrow> video_insight list \<Rightarrow> string \<Rightarrow> style_preferences option \<Rightarrow>
   insight_result" where
  "generate_video_description_from_insights now user_query video_insights generator_type prefs =
     (if user_query = [] \<or> video_insights = [] then
        insight_failure ''User query and video insights are required'' ''Missing required parameters''
      else
        let g = (if lower generator_type \<notin> set supported_generators then ''veo''
                 else generator_type)
        in case extract_combined_insights video_insights of
             Inl e \<Rightarrow>
               insight_failure (''Failed to generate video description: '' @ str_of_error e)
                 (str_of_error e)
           | Inr combined \<Rightarrow>
               \<lparr>ins_success = True,
                ins_message = ''Successfully generated video description for '' @ upper g @
                  '' based on '' @ str_of_nat (length video_insights) @ '' video insights'',
                ins_video_description = create_video_description_from_insights user_query combined g prefs,
                ins_variations = Some (create_video_variations user_query combined g prefs),
                ins_recommendations = Some (create_recommendations_from_insights combined g),
                ins_technical_specifications = Some (create_technical_specifications g combined),
                ins_generated_at = Some now,
                ins_generator_type = Some (lower g),
                insights_analyzed = Some (length video_insights),
                ins_error = None\<rparr>)"


text \<open>Concrete inputs of the generation engine, on which the functions are evaluated.\<close>

definition sample_insights :: trend_insights where
  "sample_insights =
     \<lparr>common_words = [(''free'', 2)], themes = [''discount'', ''quality''], image_count = 1,
      video_count = 2, emotional_tone = [(''positive'', 1), (''urgent'', 3)],
      format_distribution = [(''VIDEO'', 2), (''IMAGE'', 1)]\<rparr>"

definition sample_describe :: "string \<Rightarrow> trend_insights \<Rightarrow> string \<Rightarrow> unit \<Rightarrow> py_error + string" where
  "sample_describe user_query insights generator_type prefs =
     Inr (''A '' @ generator_type @ '' video about '' @ user_query)"


definition midnight :: pydatetime where
  "midnight = \<lparr>wall = 0, utcoffset = None\<rparr>"

section \<open>Verified properties\<close>

subsection \<open>The URL functions\<close>

lemma take_eq_prefix: "n = length p \<Longrightarrow> (take n s = p) = (\<exists>r. s = p @ r)"
  by (metis append_eq_conv_conj append_take_drop_id)

lemma strip_scheme_cases:
  "strip_scheme s =
     (if \<exists>r. s = ''https://'' @ r then Some (drop 8 s)
      else if \<exists>r. s = ''http://'' @ r then Some (drop 7 s) else None)"
proof -
  have a: "(take 8 s = ''https://'') = (\<exists>r. s = ''https://'' @ r)"
    by (rule take_eq_prefix) simp
  have b: "(take 7 s = ''http://'') = (\<exists>r. s = ''http://'' @ r)"
    by (rule take_eq_prefix) simp
  show ?thesis unfolding strip_scheme_def a b ..
qed

lemma strip_scheme_Some:
  "strip_scheme s = Some r \<Longrightarrow> (s = ''https://'' @ r \<or> s = ''http://'' @ r)"
  unfolding strip_scheme_cases
  by (auto split: if_splits)

lemma strip_scheme_https: "strip_scheme (''https://'' @ r) = Some r"
  unfolding strip_scheme_def by simp

lemma strip_scheme_http: "strip_scheme (''http://'' @ r) = Some r"
  unfolding strip_scheme_def by simp

lemma url_match_here_Some:
  assumes "url_match_here s = Some m"
  shows "\<exists>post. s = m @ post \<and> matches_url_pattern m \<and> (post = [] \<or> \<not> url_char (hd post))"
proof -
  from assms obtain r where r: "strip_scheme s = Some r" and ne: "takeWhile url_char r \<noteq> []"
    and m: "m = take (length s - length r) s @ takeWhile url_char r"
    unfolding url_match_here_def by (auto split: option.splits if_splits)
  from strip_scheme_Some [OF r] obtain p where p: "s = p @ r" "p = ''https://'' \<or> p = ''http://''"
    by auto
  have m': "m = p @ takeWhile url_char r" using m p(1) by simp
  have s: "s = m @ dropWhile url_char r" using m' p(1) by simp
  have sm: "strip_scheme m = Some (takeWhile url_char r)"
    using p(2) m' strip_scheme_https strip_scheme_http by auto
  have mt: "matches_url_pattern m"
    unfolding matches_url_pattern_def sm using ne
    by (simp add: list_all_iff) (meson set_takeWhileD)
  have "dropWhile url_char r = [] \<or> \<not> url_char (hd (dropWhile url_char r))"
    by (metis hd_dropWhile)
  with s mt show ?thesis by blast
qed

lemma url_match_here_complete:
  assumes "matches_url_pattern u"
  shows "url_match_here (u @ post) \<noteq> None"
proof -
  from assms obtain b where b: "strip_scheme u = Some b" "b \<noteq> []" "list_all url_char b"
    unfolding matches_url_pattern_def by (auto split: option.splits)
  from strip_scheme_Some [OF b(1)] have "strip_scheme (u @ post) = Some (b @ post)"
    using strip_scheme_https strip_scheme_http by auto
  moreover have "takeWhile url_char (b @ post) \<noteq> []"
    using b(2,3) by (cases b) (auto simp: list_all_iff)
  ultimately show ?thesis unfolding url_match_here_def by simp
qed

lemma url_search_None:
  "url_search s = None \<Longrightarrow> url_match_here (drop k s) = None"
proof (induction s arbitrary: k)
  case Nil then show ?case by simp
next
  case (Cons c cs)
  then show ?case by (cases k) (auto split: option.splits)
qed

lemma url_search_Some:
  "url_search s = Some m \<Longrightarrow>
     \<exists>n \<le> length s. url_match_here (drop n s) = Some m \<and>
       (\<forall>k < n. url_match_here (drop k s) = None)"
proof (induction s)
  case Nil then show ?case by simp
next
  case (Cons c cs)
  show ?case
  proof (cases "url_match_here (c # cs)")
    case (Some m')
    with Cons.prems have "m' = m" by simp
    with Some show ?thesis by (intro exI [of _ 0]) simp
  next
    case None
    with Cons.prems have "url_search cs = Some m" by simp
    from Cons.IH [OF this] obtain n where n:
      "n \<le> length cs" "url_match_here (drop n cs) = Some m"
      "\<forall>k < n. url_match_here (drop k cs) = None" by blast
    have "url_match_here (drop k (c # cs)) = None" if "k < Suc n" for k
      using that None n(3) by (cases k) auto
    with n(1,2) show ?thesis by (intro exI [of _ "Suc n"]) simp
  qed
qed

lemma is_valid_url_iff:
  "is_valid_url text \<longleftrightarrow> (\<exists>u. sublist u text \<and> matches_url_pattern u)"
proof
  assume "is_valid_url text"
  then obtain m where m: "url_search text = Some m"
    unfolding is_valid_url_def by auto
  from url_search_Some [OF m] obtain n where
    n: "url_match_here (drop n text) = Some m" by blast
  from url_match_here_Some [OF n] obtain post where
    post: "drop n text = m @ post" "matches_url_pattern m" by blast
  have "text = take n text @ m @ post"
    using post(1) by (metis append_take_drop_id)
  with post(2) show "\<exists>u. sublist u text \<and> matches_url_pattern u"
    unfolding sublist_def by blast
next
  assume "\<exists>u. sublist u text \<and> matches_url_pattern u"
  then obtain u pre post where u: "text = pre @ u @ post" "matches_url_pattern u"
    unfolding sublist_def by blast
  have "drop (length pre) text = u @ post" using u(1) by simp
  with url_match_here_complete [OF u(2), of post]
  have ne: "url_match_here (drop (length pre) text) \<noteq> None" by simp
  have "url_search text \<noteq> None"
  proof
    assume "url_search text = None"
    from url_search_None [OF this, of "length pre"] ne show False by simp
  qed
  then show "is_valid_url text"
    unfolding is_valid_url_def .
qed

lemma extract_url_first:
  assumes "extract_url_from_text text = Some m"
  shows "\<exists>pre post. text = pre @ m @ post \<and> matches_url_pattern m \<and>
           (\<forall>k<length pre. \<forall>u. prefix u (drop k text) \<longrightarrow> \<not> matches_url_pattern u) \<and>
           (post = [] \<or> \<not> url_char (hd post))"
proof -
  from assms have m: "url_search text = Some m"
    unfolding extract_url_from_text_def .
  from url_search_Some [OF m] obtain n where
    n: "n \<le> length text" "url_match_here (drop n text) = Some m"
      "\<forall>k < n. url_match_here (drop k text) = None" by blast
  define pre where "pre = take n text"
  have lp: "length pre = n" using n(1) by (simp add: pre_def)
  from url_match_here_Some [OF n(2)] obtain post where
    post: "drop n text = m @ post" "matches_url_pattern m"
      "post = [] \<or> \<not> url_char (hd post)" by blast
  have t: "text = pre @ m @ post"
    unfolding pre_def using post(1) by (metis append_take_drop_id)
  have "\<not> matches_url_pattern u" if "k < length pre" "prefix u (drop k text)" for k u
  proof
    assume mu: "matches_url_pattern u"
    from that(2) obtain r where r: "drop k text = u @ r" unfolding prefix_def by blast
    from that(1) lp n(3) have "url_match_here (drop k text) = None" by simp
    with url_match_here_complete [OF mu, of r] r show False by simp
  qed
  with t post(2,3) show ?thesis by blast
qed

text \<open>
  Claim C7.  \<open>is_valid_url text\<close> is true exactly when \<open>text\<close> contains a substring
  matching the permissive URL pattern, and exactly when \<open>extract_url_from_text\<close>
  returns a string rather than none; the string returned matches the pattern, no match
  of the pattern begins to its left, and it cannot be extended to the right.  On the
  text \<open>check out https://example.com/page?q=1 today\<close> the first is true and the second
  returns exactly \<open>https://example.com/page?q=1\<close>; on \<open>no links here\<close> the first is false.
\<close>

theorem is_valid_url_extract_url_from_text:
  "(is_valid_url text \<longleftrightarrow> (\<exists>u. sublist u text \<and> matches_url_pattern u)) \<and>
   (is_valid_url text \<longleftrightarrow> extract_url_from_text text \<noteq> None) \<and>
   (\<forall>m. extract_url_from_text text = Some m \<longrightarrow>
      (\<exists>pre post. text = pre @ m @ post \<and> matches_url_pattern m \<and>
         (\<forall>k<length pre. \<forall>u. prefix u (drop k text) \<longrightarrow> \<not> matches_url_pattern u) \<and>
         (post = [] \<or> \<not> url_char (hd post)))) \<and>
   is_valid_url ''check out https://example.com/page?q=1 today'' \<and>
   extract_url_from_text ''check out https://example.com/page?q=1 today'' =
     Some ''https://example.com/page?q=1'' \<and>
   \<not> is_valid_url ''no links here''"
proof (intro conjI)
  show "is_valid_url text \<longleftrightarrow> (\<exists>u. sublist u text \<and> matches_url_pattern u)"
    by (rule is_valid_url_iff)
  show "is_valid_url text \<longleftrightarrow> extract_url_from_text text \<noteq> None"
    by (simp add: is_valid_url_def extract_url_from_text_def)
  show "\<forall>m. extract_url_from_text text = Some m \<longrightarrow>
      (\<exists>pre post. text = pre @ m @ post \<and> matches_url_pattern m \<and>
         (\<forall>k<length pre. \<forall>u. prefix u (drop k text) \<longrightarrow> \<not> matches_url_pattern u) \<and>
         (post = [] \<or> \<not> url_char (hd post)))"
    using extract_url_first by blast
  show "is_valid_url ''check out https://example.com/page?q=1 today''"
    by (simp add: is_valid_url_def url_match_here_def strip_scheme_def url_char_def)
  show "extract_url_from_text ''check out https://example.com/page?q=1 today'' =
     Some ''https://example.com/page?q=1''"
    by (simp add: extract_url_from_text_def url_match_here_def strip_scheme_def url_char_def)
  show "\<not> is_valid_url ''no links here''"
    by (simp add: is_valid_url_def url_match_here_def strip_scheme_def url_char_def)
qed

theorem is_valid_url_extract_url_from_text_witness:
  "extract_url_from_text ''go http://a.b/c?d now'' = Some ''http://a.b/c?d'' \<and>
   (\<exists>pre post. ''go http://a.b/c?d now'' = pre @ ''http://a.b/c?d'' @ post \<and>
      matches_url_pattern ''http://a.b/c?d'' \<and>
      (\<forall>k<length pre. \<forall>u. prefix u (drop k ''go http://a.b/c?d now'') \<longrightarrow>
         \<not> matches_url_pattern u) \<and>
      (post = [] \<or> \<not> url_char (hd post)))"
proof -
  have e: "extract_url_from_text ''go http://a.b/c?d now'' = Some ''http://a.b/c?d''"
    by (simp add: extract_url_from_text_def url_match_here_def strip_scheme_def url_char_def)
  from is_valid_url_extract_url_from_text [of "''go http://a.b/c?d now''"] e
  show ?thesis by blast
qed

subsection \<open>Word and phrase frequencies\<close>









lemma most_common_length: "length (most_common n cnt) \<le> n"
  unfolding most_common_def by simp

lemma most_common_subset: "set (most_common n cnt) \<subseteq> set cnt"
  unfolding most_common_def using set_take_subset [of n "sort_key (\<lambda>(k, c). - int c) cnt"] by simp



text \<open>
  Claim C5.  For every list of texts, the word-frequency result has at most 20 entries,
  and every word in it is outside the stop-word list and longer than 3 characters.
\<close>

theorem word_frequency_filtered:
  "length (analyze_word_frequency texts) \<le> 20 \<and>
   (\<forall>(word, count) \<in> set (analyze_word_frequency texts).
      word \<notin> set stop_words \<and> length word > 3)"
proof -
  have "length (analyze_word_frequency texts) \<le> 20"
    unfolding analyze_word_frequency_def Let_def by (rule most_common_length)
  moreover have "word \<notin> set stop_words \<and> length word > 3"
    if "(word, count) \<in> set (analyze_word_frequency texts)" for word count
    using that most_common_subset
    unfolding analyze_word_frequency_def Let_def by fastforce
  ultimately show ?thesis by blast
qed

theorem word_frequency_filtered_witness:
  "(''shipping'', 1) \<in> set (analyze_word_frequency [''Free shipping with the best offers'']) \<and>
   ''shipping'' \<notin> set stop_words \<and> length ''shipping'' > 3 \<and>
   length (analyze_word_frequency [''Free shipping with the best offers'']) \<le> 20"
proof -
  have m: "(''shipping'', 1) \<in> set (analyze_word_frequency [''Free shipping with the best offers''])"
    by code_simp
  from word_frequency_filtered [of "[''Free shipping with the best offers'']"] m
  show ?thesis by blast
qed




lemma word_runs_nonword: "\<not> is_word_char c \<Longrightarrow> word_runs (c # cs) = word_runs cs"
  by simp

lemma word_runs_word:
  "is_word_char c \<Longrightarrow>
     word_runs (c # cs) = (c # takeWhile is_word_char cs) # word_runs (dropWhile is_word_char cs)"
  by simp



lemma dropWhile_start: "s = [] \<or> \<not> P (hd s) \<Longrightarrow> dropWhile P s = s"
  by (cases s) auto


























subsection \<open>Dates and the result envelope of the trend analysis\<close>

lemma dt_less_same: "aware a = aware b \<Longrightarrow> \<exists>r. dt_less a b = Inr r"
  unfolding aware_def dt_less_def by (auto split: option.splits)

lemma dt_less_mixed:
  "aware a \<noteq> aware b \<Longrightarrow>
     dt_less a b = Inl (TypeError ''can't compare offset-naive and offset-aware datetimes'')"
  unfolding aware_def dt_less_def by (auto split: option.splits)

lemma min_from_same:
  "\<forall>d\<in>set ds. aware d = aware best \<Longrightarrow> \<exists>m. min_from best ds = Inr m \<and> aware m = aware best"
proof (induction ds arbitrary: best)
  case Nil
  then show ?case by simp
next
  case (Cons d ds)
  then have "aware d = aware best" by simp
  from dt_less_same [OF this] obtain r where r: "dt_less d best = Inr r" by blast
  have "\<forall>x\<in>set ds. aware x = aware (if r then d else best)"
    using Cons.prems by simp
  from Cons.IH [OF this] r Cons.prems show ?case by auto
qed

lemma max_from_same:
  "\<forall>d\<in>set ds. aware d = aware best \<Longrightarrow> \<exists>m. max_from best ds = Inr m \<and> aware m = aware best"
proof (induction ds arbitrary: best)
  case Nil
  then show ?case by simp
next
  case (Cons d ds)
  then have "aware best = aware d" by simp
  from dt_less_same [OF this] obtain r where r: "dt_less best d = Inr r" by blast
  have "\<forall>x\<in>set ds. aware x = aware (if r then d else best)"
    using Cons.prems by simp
  from Cons.IH [OF this] r Cons.prems show ?case by auto
qed

lemma min_from_mixed:
  "\<exists>d\<in>set ds. aware d \<noteq> aware best \<Longrightarrow>
     min_from best ds = Inl (TypeError ''can't compare offset-naive and offset-aware datetimes'')"
proof (induction ds arbitrary: best)
  case Nil
  then show ?case by simp
next
  case (Cons d ds)
  show ?case
  proof (cases "aware d = aware best")
    case False
    from dt_less_mixed [OF this] show ?thesis by simp
  next
    case True
    from dt_less_same [OF this] obtain r where r: "dt_less d best = Inr r" by blast
    from Cons.prems obtain x where x: "x \<in> set (d # ds)" "aware x \<noteq> aware best" by blast
    with True have xin: "x \<in> set ds" by (cases "x = d") simp_all
    have "aware (if r then d else best) = aware best" using True by simp
    with x(2) have "aware x \<noteq> aware (if r then d else best)" by simp
    with xin have "\<exists>x\<in>set ds. aware x \<noteq> aware (if r then d else best)" by blast
    from Cons.IH [OF this] r show ?thesis by simp
  qed
qed


lemma uniform_Cons:
  assumes "uniform (d # ds)"
  shows "\<forall>x\<in>set ds. aware x = aware d"
proof
  fix x assume "x \<in> set ds"
  then have "x \<in> set (d # ds)" "d \<in> set (d # ds)" by simp_all
  with assms show "aware x = aware d" unfolding uniform_def by blast
qed

lemma not_uniform_Cons: "\<not> uniform (d # ds) \<Longrightarrow> \<exists>x\<in>set ds. aware x \<noteq> aware d"
proof (rule ccontr)
  assume nu: "\<not> uniform (d # ds)" and na: "\<not> (\<exists>x\<in>set ds. aware x \<noteq> aware d)"
  have all: "\<forall>x\<in>set (d # ds). aware x = aware d"
  proof
    fix x assume "x \<in> set (d # ds)"
    then have "x = d \<or> x \<in> set ds" by simp
    with na show "aware x = aware d" by blast
  qed
  have "uniform (d # ds)" unfolding uniform_def
  proof (intro ballI)
    fix a b assume "a \<in> set (d # ds)" "b \<in> set (d # ds)"
    with all have "aware a = aware d" "aware b = aware d" by blast+
    then show "aware a = aware b" by (rule trans [OF _ sym])
  qed
  with nu show False ..
qed

lemma py_min_uniform:
  assumes "ds \<noteq> []" "uniform ds"
  shows "\<exists>m. py_min ds = Inr m"
proof -
  from assms(1) obtain d ds' where ds: "ds = d # ds'" by (cases ds) simp_all
  from min_from_same [OF uniform_Cons [OF assms(2) [unfolded ds]]]
  obtain m where "min_from d ds' = Inr m" by blast
  then show ?thesis unfolding ds by simp
qed

lemma py_max_uniform:
  assumes "ds \<noteq> []" "uniform ds"
  shows "\<exists>m. py_max ds = Inr m"
proof -
  from assms(1) obtain d ds' where ds: "ds = d # ds'" by (cases ds) simp_all
  from max_from_same [OF uniform_Cons [OF assms(2) [unfolded ds]]]
  obtain m where "max_from d ds' = Inr m" by blast
  then show ?thesis unfolding ds by simp
qed

lemma uniform_Nil: "uniform []"
  unfolding uniform_def by simp

lemma py_min_mixed:
  assumes "\<not> uniform ds"
  shows "py_min ds = Inl (TypeError ''can't compare offset-naive and offset-aware datetimes'')"
proof -
  from assms uniform_Nil obtain d ds' where ds: "ds = d # ds'" by (cases ds) auto
  from min_from_mixed [OF not_uniform_Cons [OF assms [unfolded ds]]]
  show ?thesis unfolding ds by simp
qed

lemma aware_to_naive: "aware (to_naive d) = False"
  unfolding aware_def to_naive_def by simp

lemma uniform_naive: "uniform (map to_naive ds)"
  unfolding uniform_def
proof (intro ballI)
  fix a b assume "a \<in> set (map to_naive ds)" "b \<in> set (map to_naive ds)"
  then obtain x y where "a = to_naive x" "b = to_naive y" by auto
  then show "aware a = aware b" by (simp add: aware_to_naive)
qed


lemma get_analysis_period_total: "\<exists>p. get_analysis_period fromiso ads_data = Inr p"
proof (cases "collect_dates fromiso ads_data = []")
  case True
  then show ?thesis unfolding get_analysis_period_def by simp
next
  case False
  then have ne: "map to_naive (collect_dates fromiso ads_data) \<noteq> []" by simp
  from py_min_uniform [OF ne uniform_naive] obtain mn where
    mn: "py_min (map to_naive (collect_dates fromiso ads_data)) = Inr mn" by blast
  from py_max_uniform [OF ne uniform_naive] obtain mx where
    mx: "py_max (map to_naive (collect_dates fromiso ads_data)) = Inr mx" by blast
  have "get_analysis_period fromiso ads_data = Inr (Period mn mx (delta_days mx mn))"
    unfolding get_analysis_period_def Let_def mn mx using False by simp
  then show ?thesis ..
qed

lemma analyze_date_patterns_raises_iff:
  "(\<exists>e. analyze_date_patterns fromiso now ads_data = Inl e) \<longleftrightarrow>
     \<not> uniform (collect_dates fromiso ads_data)"
proof (cases "uniform (collect_dates fromiso ads_data)")
  case True
  show ?thesis
  proof (cases "collect_dates fromiso ads_data = []")
    case True
    then show ?thesis unfolding analyze_date_patterns_def uniform_def by simp
  next
    case False
    from py_min_uniform [OF False True] obtain mn where
      mn: "py_min (collect_dates fromiso ads_data) = Inr mn" by blast
    from py_max_uniform [OF False True] obtain mx where
      mx: "py_max (collect_dates fromiso ads_data) = Inr mx" by blast
    have "\<exists>dp. analyze_date_patterns fromiso now ads_data = Inr dp"
      unfolding analyze_date_patterns_def Let_def mn mx using False by simp
    with True show ?thesis by auto
  qed
next
  case False
  then have "collect_dates fromiso ads_data \<noteq> []" unfolding uniform_def by auto
  then have "analyze_date_patterns fromiso now ads_data =
      Inl (TypeError ''can't compare offset-naive and offset-aware datetimes'')"
    unfolding analyze_date_patterns_def Let_def py_min_mixed [OF False] by simp
  with False show ?thesis by simp
qed

lemma analyze_trends_nonempty:
  assumes "ads_data \<noteq> []"
  shows "analyze_trends_from_ads fromiso now ads_data a_type =
     (case analyze_overview_trends fromiso now ads_data of
        Inl e \<Rightarrow>
          \<lparr>success = False, message = ''Failed to analyze trends: '' @ str_of_error e,
           trends = Empty_trends, analysis_metadata = None, error = Some (str_of_error e)\<rparr>
      | Inr ov \<Rightarrow>
          \<lparr>success = True,
           message = ''Successfully analyzed trends from '' @ str_of_nat (length ads_data) @ '' ads'',
           trends = Trends \<lparr>overview = ov, content = analyze_content_trends ads_data\<rparr>,
           analysis_metadata = Some \<lparr>total_ads = length ads_data,
             image_ads = length (filter (\<lambda>ad. media_type ad = Some ''IMAGE'') ads_data),
             video_ads = length (filter (\<lambda>ad. media_type ad = Some ''VIDEO'') ads_data),
             analysis_type = a_type, analyzed_at = now\<rparr>,
           error = None\<rparr>)"
  unfolding analyze_trends_from_ads_def Let_def if_not_P [OF assms] ..

lemma analyze_overview_raises_iff:
  "(\<exists>e. analyze_overview_trends fromiso now ads_data = Inl e) \<longleftrightarrow>
     \<not> uniform (collect_dates fromiso ads_data)"
proof -
  obtain p where p: "get_analysis_period fromiso ads_data = Inr p"
    using get_analysis_period_total by blast
  show ?thesis
  proof (cases "analyze_date_patterns fromiso now ads_data")
    case (Inl e)
    with analyze_date_patterns_raises_iff [of fromiso now ads_data]
    have "\<not> uniform (collect_dates fromiso ads_data)" by blast
    with Inl show ?thesis
      unfolding analyze_overview_trends_def Let_def by simp
  next
    case (Inr dp)
    with analyze_date_patterns_raises_iff [of fromiso now ads_data]
    have "uniform (collect_dates fromiso ads_data)" by auto
    with Inr p show ?thesis
      unfolding analyze_overview_trends_def Let_def by simp
  qed
qed

lemma analyze_trends_success_iff:
  assumes "ads_data \<noteq> []"
  shows "success (analyze_trends_from_ads fromiso now ads_data a_type) \<longleftrightarrow>
           uniform (collect_dates fromiso ads_data)"
proof (cases "analyze_overview_trends fromiso now ads_data")
  case (Inl e)
  with analyze_overview_raises_iff [of fromiso now ads_data]
  have "\<not> uniform (collect_dates fromiso ads_data)" by blast
  with Inl show ?thesis
    unfolding analyze_trends_nonempty [OF assms] by simp
next
  case (Inr ov)
  with analyze_overview_raises_iff [of fromiso now ads_data]
  have "uniform (collect_dates fromiso ads_data)" by auto
  with Inr show ?thesis
    unfolding analyze_trends_nonempty [OF assms] by simp
qed

lemma analyze_trends_metadata:
  assumes "analysis_metadata (analyze_trends_from_ads fromiso now ads_data a_type) = Some m"
  shows "total_ads m = length ads_data \<and>
         video_ads m = length (filter (\<lambda>ad. media_type ad = Some ''VIDEO'') ads_data) \<and>
         image_ads m = length (filter (\<lambda>ad. media_type ad = Some ''IMAGE'') ads_data)"
proof (cases "ads_data = []")
  case True
  with assms show ?thesis unfolding analyze_trends_from_ads_def by simp
next
  case False
  show ?thesis
  proof (cases "analyze_overview_trends fromiso now ads_data")
    case (Inl e)
    with assms show ?thesis unfolding analyze_trends_nonempty [OF False] by simp
  next
    case (Inr ov)
    with assms show ?thesis unfolding analyze_trends_nonempty [OF False] by auto
  qed
qed


lemma mixed_dates: "collect_dates fromisoformat_basic mixed_ads =
   [\<lparr>wall = 1704067200000000, utcoffset = Some 0\<rparr>, \<lparr>wall = 1704153600000000, utcoffset = None\<rparr>]"
  by code_simp


text \<open>
  Claim C4.  For the empty list of ads and every analysis type, the result is the
  failure envelope with \<open>success\<close> false and the empty \<open>trends\<close> object; nothing else is
  computed, the result depends neither on the parser nor on the clock.
\<close>

theorem analyze_trends_empty: "analyze_trends_from_ads fromiso now [] a_type =
   \<lparr>success = False, message = ''No ads data provided for analysis'',
    trends = Empty_trends, analysis_metadata = None, error = Some ''Empty ads data''\<rparr>"
  unfolding analyze_trends_from_ads_def by simp

text \<open>
  Claim C1 states that for every non-empty list of ads the result is a success envelope
  whose metadata counts the ads, the \<open>VIDEO\<close> ads and the \<open>IMAGE\<close> ads.  The counts are
  right whenever the metadata is there (\<open>analyze_trends_metadata\<close>), and the envelope is
  a success exactly when the parsed start dates are all aware or all naive
  (\<open>analyze_trends_success_iff\<close>).  On the two ads of \<open>mixed_ads\<close> the comparison
  inside \<open>min(dates)\<close> of \<open>_analyze_date_patterns\<close> raises, and the result is the failure
  envelope, without metadata.
\<close>

theorem analyze_trends_mixed_dates_fail: "analyze_trends_from_ads fromisoformat_basic now mixed_ads ''comprehensive'' =
   \<lparr>success = False,
    message = ''Failed to analyze trends: can't compare offset-naive and offset-aware datetimes'',
    trends = Empty_trends, analysis_metadata = None,
    error = Some ''can't compare offset-naive and offset-aware datetimes''\<rparr>"
proof -
  have "analyze_date_patterns fromisoformat_basic now mixed_ads =
     Inl (TypeError ''can't compare offset-naive and offset-aware datetimes'')"
    unfolding analyze_date_patterns_def mixed_dates by (simp add: dt_less_def)
  moreover have "mixed_ads \<noteq> []" unfolding mixed_ads_def by simp
  ultimately show ?thesis
    unfolding analyze_trends_from_ads_def analyze_overview_trends_def Let_def by simp
qed

text \<open>
  Claim C2 states that both date functions make every timestamp naive before comparing.
  \<open>_get_analysis_period\<close> does, and returns the range of the two dates of \<open>mixed_ads\<close>;
  \<open>_analyze_date_patterns\<close> makes them naive for the recency test only and raises
  \<open>TypeError\<close> on the same input when it takes the date range.
\<close>

theorem date_patterns_mixed_dates_raise: "analyze_date_patterns fromisoformat_basic now mixed_ads =
     Inl (TypeError ''can't compare offset-naive and offset-aware datetimes'') \<and>
   get_analysis_period fromisoformat_basic mixed_ads =
     Inr (Period \<lparr>wall = 1704067200000000, utcoffset = None\<rparr>
                 \<lparr>wall = 1704153600000000, utcoffset = None\<rparr> 1)"
  unfolding analyze_date_patterns_def get_analysis_period_def mixed_dates
  by (simp add: dt_less_def to_naive_def delta_days_def)

subsection \<open>The generation engine\<close>

lemma veo_supported: "lower ''veo'' \<in> set supported_generators"
  by code_simp

lemma lower_veo: "lower ''veo'' = ''veo''"
  by code_simp

lemma veo_tips:
  "optimization_tips (generate_technical_specs insights ''veo'') =
     (if 0 < dict_get (format_distribution insights) ''VIDEO'' 0
      then [''Video content is trending - prioritize motion and transitions''] else []) @
     [''Use clear, descriptive prompts'', ''Focus on smooth motion'', ''Avoid complex scenes'']"
  unfolding generate_technical_specs_def lower_veo by (simp add: dict_get_def)

lemma generate_video_description_fallback:
  assumes "lower generator_type \<notin> set supported_generators"
  shows "generate_video_description describe now user_query trends_data generator_type prefs =
         generate_video_description describe now user_query trends_data ''veo'' prefs"
  unfolding generate_video_description_def using assms veo_supported
  by (simp add: Let_def)

lemma generate_video_description_specs:
  assumes "technical_specifications
             (generate_video_description describe now user_query trends_data ''veo'' prefs) = Some specs"
  shows "\<exists>insights. trends_data = Some insights \<and> specs = generate_technical_specs insights ''veo''"
  using assms veo_supported unfolding generate_video_description_def description_failure_def
  by (auto simp: Let_def split: option.splits if_splits sum.splits)

text \<open>
  Claim C8.  When the lower-cased generator type is outside the supported list,
  \<open>generate_video_description\<close> returns what it returns for the generator type \<open>veo\<close>,
  whatever the query, the trends data and the narrative text are; the technical
  specifications of the result, when it has any, are those of \<open>veo\<close>: generator type
  \<open>veo\<close>, aspect ratio 16:9, resolution 1080p, duration 5-15 seconds, and the three
  optimization tips of \<open>veo\<close> at the end of the list.
\<close>

theorem unsupported_generator_falls_back_to_veo:
  assumes "lower generator_type \<notin> set supported_generators"
  shows "generate_video_description describe now user_query trends_data generator_type prefs =
           generate_video_description describe now user_query trends_data ''veo'' prefs \<and>
         (\<forall>specs. technical_specifications
              (generate_video_description describe now user_query trends_data generator_type prefs)
              = Some specs \<longrightarrow>
            (\<exists>insights. trends_data = Some insights \<and>
               specs = generate_technical_specs insights ''veo'') \<and>
            spec_generator_type specs = ''veo'' \<and>
            recommended_aspect_ratio specs = ''16:9'' \<and>
            recommended_resolution specs = ''1080p'' \<and>
            recommended_duration specs = ''5-15 seconds'' \<and>
            (\<exists>pre. optimization_tips specs =
               pre @ [''Use clear, descriptive prompts'', ''Focus on smooth motion'',
                      ''Avoid complex scenes'']))"
proof (intro conjI allI impI)
  show eq: "generate_video_description describe now user_query trends_data generator_type prefs =
      generate_video_description describe now user_query trends_data ''veo'' prefs"
    by (rule generate_video_description_fallback [OF assms])
  fix specs
  assume "technical_specifications
      (generate_video_description describe now user_query trends_data generator_type prefs) = Some specs"
  then have "technical_specifications
      (generate_video_description describe now user_query trends_data ''veo'' prefs) = Some specs"
    unfolding eq .
  from generate_video_description_specs [OF this]
  obtain insights where i: "trends_data = Some insights"
    "specs = generate_technical_specs insights ''veo''" by blast
  then show "\<exists>insights. trends_data = Some insights \<and> specs = generate_technical_specs insights ''veo''"
    by blast
  show "spec_generator_type specs = ''veo''" "recommended_aspect_ratio specs = ''16:9''"
    "recommended_resolution specs = ''1080p''" "recommended_duration specs = ''5-15 seconds''"
    unfolding i(2) generate_technical_specs_def by simp_all
  show "\<exists>pre. optimization_tips specs =
      pre @ [''Use clear, descriptive prompts'', ''Focus on smooth motion'', ''Avoid complex scenes'']"
    unfolding i(2) veo_tips by blast
qed

theorem unsupported_generator_falls_back_to_veo_witness:
  "lower ''unknown_gen'' \<notin> set supported_generators \<and>
   technical_specifications
     (generate_video_description sample_describe midnight ''shoes''
        (Some sample_insights) ''unknown_gen'' ()) =
   Some \<lparr>spec_generator_type = ''veo'', recommended_aspect_ratio = ''16:9'',
         recommended_resolution = ''1080p'', recommended_duration = ''5-15 seconds'',
         optimization_tips =
           [''Video content is trending - prioritize motion and transitions'',
            ''Use clear, descriptive prompts'', ''Focus on smooth motion'',
            ''Avoid complex scenes'']\<rparr>"
proof -
  have h: "lower ''unknown_gen'' \<notin> set supported_generators" by code_simp
  have v: "technical_specifications
     (generate_video_description sample_describe midnight ''shoes''
        (Some sample_insights) ''veo'' ()) =
   Some \<lparr>spec_generator_type = ''veo'', recommended_aspect_ratio = ''16:9'',
         recommended_resolution = ''1080p'', recommended_duration = ''5-15 seconds'',
         optimization_tips =
           [''Video content is trending - prioritize motion and transitions'',
            ''Use clear, descriptive prompts'', ''Focus on smooth motion'',
            ''Avoid complex scenes'']\<rparr>"
    by code_simp
  from unsupported_generator_falls_back_to_veo [OF h, of sample_describe
      "midnight" "''shoes''" "Some sample_insights" "()"]
  have "generate_video_description sample_describe midnight ''shoes''
        (Some sample_insights) ''unknown_gen'' () =
      generate_video_description sample_describe midnight ''shoes''
        (Some sample_insights) ''veo'' ()" by (rule conjunct1)
  with h v show ?thesis by simp
qed

lemma create_unique_variations_shape:
  "\<exists>e t c. create_unique_variations d insights g = [e @ d, t @ d, c @ d]"
  unfolding create_unique_variations_def create_emotional_variation_def
    create_technical_variation_def create_competitive_variation_def
  by simp

lemma create_video_variations_length:
  "length (create_video_variations user_query combined g prefs) = 3"
  unfolding create_video_variations_def by simp

lemma trend_path_variations:
  "(gen_success (generate_video_description describe now user_query trends_data g prefs) \<longrightarrow>
      (\<exists>e t c. variations (generate_video_description describe now user_query trends_data g prefs) =
         Some [e @ video_description (generate_video_description describe now user_query trends_data g prefs),
               t @ video_description (generate_video_description describe now user_query trends_data g prefs),
               c @ video_description (generate_video_description describe now user_query trends_data g prefs)])) \<and>
   (\<not> gen_success (generate_video_description describe now user_query trends_data g prefs) \<longrightarrow>
      variations (generate_video_description describe now user_query trends_data g prefs) = None)"
proof (cases trends_data)
  case None
  then show ?thesis
    unfolding generate_video_description_def description_failure_def by simp
next
  case (Some insights)
  show ?thesis
  proof (cases "user_query = []")
    case True
    with Some show ?thesis
      unfolding generate_video_description_def description_failure_def by simp
  next
    case False
    define g' where "g' = (if lower g \<notin> set supported_generators then ''veo'' else g)"
    show ?thesis
    proof (cases "describe user_query insights g' prefs")
      case (Inl e)
      with Some False show ?thesis
        unfolding generate_video_description_def description_failure_def g'_def
        by (simp add: Let_def)
    next
      case (Inr d)
      from create_unique_variations_shape [of d insights g']
      obtain e t c where "create_unique_variations d insights g' = [e @ d, t @ d, c @ d]"
        by blast
      with Inr Some False show ?thesis
        unfolding generate_video_description_def description_failure_def g'_def
        by (simp add: Let_def)
    qed
  qed
qed

lemma insight_path_variations:
  "(ins_success (generate_video_description_from_insights now user_query video_insights g prefs) \<longrightarrow>
      (\<exists>vs. ins_variations (generate_video_description_from_insights now user_query video_insights g prefs)
               = Some vs \<and> length vs = 3)) \<and>
   (\<not> ins_success (generate_video_description_from_insights now user_query video_insights g prefs) \<longrightarrow>
      ins_variations (generate_video_description_from_insights now user_query video_insights g prefs) = None)"
proof (cases "user_query = [] \<or> video_insights = []")
  case True
  then show ?thesis
    unfolding generate_video_description_from_insights_def insight_failure_def by auto
next
  case False
  show ?thesis
  proof (cases "extract_combined_insights video_insights")
    case (Inl e)
    with False show ?thesis
      unfolding generate_video_description_from_insights_def insight_failure_def
      by (simp add: Let_def)
  next
    case (Inr combined)
    with False show ?thesis
      unfolding generate_video_description_from_insights_def insight_failure_def
      by (simp add: Let_def create_video_variations_length)
  qed
qed















subsection \<open>The script compiler\<close>

lemma scene_1_head:
  "\<exists>t. scene_1 product_name opening_shots visual_techniques = ''SCENE 1: OPENING (0-3 seconds)'' @ t"
  unfolding scene_1_def by (rule exI) (rule refl)

lemma scene_2_head:
  "\<exists>t. scene_2 target_audience_info = ''SCENE 2: PROBLEM/HOOK (3-5 seconds)'' @ t"
  unfolding scene_2_def by (rule exI) (rule refl)

lemma scene_3_head:
  "\<exists>t. scene_3 product_name product_description visual_techniques =
     ''SCENE 3: SOLUTION/PRODUCT SHOWCASE (5-15 seconds)'' @ t"
  unfolding scene_3_def by (rule exI) (rule refl)

lemma scene_4_head:
  "\<exists>t. scene_4 product_name brand_tone = ''SCENE 4: BENEFITS & SOCIAL PROOF (15-20 seconds)'' @ t"
  unfolding scene_4_def by (rule exI) (rule refl)

lemma scene_5_head:
  "\<exists>t. scene_5 cta_info = ''SCENE 5: CALL-TO-ACTION (20-25 seconds)'' @ t"
  unfolding scene_5_def by (rule exI) (rule refl)

lemma headers_in_order:
  assumes "\<exists>t. s1 = h1 @ t" "\<exists>t. s2 = h2 @ t" "\<exists>t. s3 = h3 @ t" "\<exists>t. s4 = h4 @ t"
    "\<exists>t. s5 = h5 @ t"
  shows "\<exists>p0 p1 p2 p3 p4 p5 :: 'a list.
           pre @ s1 @ s2 @ s3 @ s4 @ s5 @ post =
           p0 @ h1 @ p1 @ h2 @ p2 @ h3 @ p3 @ h4 @ p4 @ h5 @ p5"
proof -
  from assms obtain t1 t2 t3 t4 t5 where
    t: "s1 = h1 @ t1" "s2 = h2 @ t2" "s3 = h3 @ t3" "s4 = h4 @ t4" "s5 = h5 @ t5"
    by blast
  have "pre @ s1 @ s2 @ s3 @ s4 @ s5 @ post =
        pre @ h1 @ t1 @ h2 @ t2 @ h3 @ t3 @ h4 @ t4 @ h5 @ (t5 @ post)"
    unfolding t by (simp only: append_assoc)
  then show ?thesis by blast
qed

lemma sublist_mid: "sublist h (a @ h @ b)"
  unfolding sublist_def by blast

text \<open>
  Claim C10.  For every list of insights, empty or not, and with or without a webpage
  brief, the script holds the five scene headers with their time ranges, in this order:
  \<open>SCENE 1: OPENING (0-3 seconds)\<close>, \<open>SCENE 2: PROBLEM/HOOK (3-5 seconds)\<close>,
  \<open>SCENE 3: SOLUTION/PRODUCT SHOWCASE (5-15 seconds)\<close>,
  \<open>SCENE 4: BENEFITS & SOCIAL PROOF (15-20 seconds)\<close> and
  \<open>SCENE 5: CALL-TO-ACTION (20-25 seconds)\<close>.
\<close>

theorem script_scene_headers:
  "\<exists>p0 p1 p2 p3 p4 p5.
     generate_video_prompt_from_insights insights user_query generator_type webpage_analysis =
       p0 @ ''SCENE 1: OPENING (0-3 seconds)'' @
       p1 @ ''SCENE 2: PROBLEM/HOOK (3-5 seconds)'' @
       p2 @ ''SCENE 3: SOLUTION/PRODUCT SHOWCASE (5-15 seconds)'' @
       p3 @ ''SCENE 4: BENEFITS & SOCIAL PROOF (15-20 seconds)'' @
       p4 @ ''SCENE 5: CALL-TO-ACTION (20-25 seconds)'' @ p5"
  unfolding generate_video_prompt_from_insights_def Let_def
  by (rule headers_in_order)
     (rule scene_1_head scene_2_head scene_3_head scene_4_head scene_5_head)+

end
